theory Spec2Isabelle
  imports Main
begin

section \<open>JavaScript values and React elements\<close>

text \<open>
  The components are TypeScript functions from props to React elements. A value whose
  shape the TypeScript types leave open (a document, the props of an element, an error
  object) is a \<open>val\<close>; an object is an association list in property order. A React
  element is a value too: its type (a host tag or a component, named) and its props,
  the children under the key \<open>children\<close>. A function value that the code only passes
  on (an event handler) is \<open>Fun\<close> with a name.
\<close>

datatype etype = Host string | Comp string

datatype val =
    Undefined
  | Null
  | Bool bool
  | Num int
  | Str string
  | Fun string
  | Arr "val list"
  | Obj "(string \<times> val) list"
  | Element etype "(string \<times> val) list"

type_synonym obj = "(string \<times> val) list"

text \<open>JavaScript truthiness, as \<open>if (v)\<close>, \<open>!v\<close> and \<open>v ? a : b\<close> test it.\<close>

fun truthy :: "val \<Rightarrow> bool" where
  "truthy Undefined = False"
| "truthy Null = False"
| "truthy (Bool b) = b"
| "truthy (Num n) = (n \<noteq> 0)"
| "truthy (Str s) = (s \<noteq> [])"
| "truthy (Fun f) = True"
| "truthy (Arr xs) = True"
| "truthy (Obj ps) = True"
| "truthy (Element t ps) = True"

text \<open>\<open>a ?? b\<close>: the right operand replaces \<open>null\<close> and \<open>undefined\<close> only.\<close>

definition nullish :: "val \<Rightarrow> bool" where
  "nullish v = (v = Undefined \<or> v = Null)"

definition coalesce :: "val \<Rightarrow> val \<Rightarrow> val" where
  "coalesce a b = (if nullish a then b else a)"

text \<open>\<open>o.k\<close> on an object: a missing property reads as \<open>undefined\<close>.\<close>

definition get :: "obj \<Rightarrow> string \<Rightarrow> val" where
  "get ob k = (case map_of ob k of None \<Rightarrow> Undefined | Some v \<Rightarrow> v)"

text \<open>\<open>o[k] = v\<close> in an object literal: an existing property keeps its place.\<close>

definition set_prop :: "obj \<Rightarrow> string \<Rightarrow> val \<Rightarrow> obj" where
  "set_prop ob k v =
     (if k \<in> fst ` set ob then map (\<lambda>(k', v'). if k' = k then (k', v) else (k', v')) ob
      else ob @ [(k, v)])"

text \<open>\<open>{...a, ...b}\<close>: the properties of \<open>b\<close> are assigned over those of \<open>a\<close>.\<close>

definition spread :: "obj \<Rightarrow> obj \<Rightarrow> obj" where
  "spread a b = fold (\<lambda>(k, v) acc. set_prop acc k v) b a"

text \<open>\<open>const {k1, k2, ...rest} = o\<close>: \<open>rest\<close> is \<open>o\<close> without the named properties.\<close>

definition omit :: "string list \<Rightarrow> obj \<Rightarrow> obj" where
  "omit ks ob = filter (\<lambda>(k, v). k \<notin> set ks) ob"

text \<open>
  \<open>React.createElement(type, props, ...children)\<close>, which JSX is sugar for: no child
  leaves the props as they are, one child is the \<open>children\<close> prop, several are an array.
\<close>

definition createElement :: "etype \<Rightarrow> obj \<Rightarrow> val list \<Rightarrow> val" where
  "createElement t props kids =
     Element t (case kids of
                  [] \<Rightarrow> props
                | [c] \<Rightarrow> set_prop props ''children'' c
                | _ \<Rightarrow> set_prop props ''children'' (Arr kids))"

definition isValidElement :: "val \<Rightarrow> bool" where
  "isValidElement v = (case v of Element t ps \<Rightarrow> True | _ \<Rightarrow> False)"

section \<open>Search results\<close>

text \<open>
  \<open>Result<IndexableDocument>\<close>: the document is an object; rank and highlight are
  optional, \<open>Undefined\<close> when absent.
\<close>

record result =
  rtype :: string
  document :: obj
  highlight :: val
  rank :: val

section \<open>extension.tsx\<close>

definition SEARCH_RESULT_LIST_ITEM_EXTENSION :: string where
  "SEARCH_RESULT_LIST_ITEM_EXTENSION = ''search.results.list.items.extensions.v1''"

text \<open>
  The data an extension carries: \<open>Pick<SearchResultListItemExtensionOptions,
  'predicate' | 'component'>\<close>. The predicate is optional in that type.
\<close>

record extension_data =
  ext_component :: string
  ext_predicate :: "(result \<Rightarrow> bool) option"

text \<open>
  Modelled from the spec: \<open>createReactExtension\<close> and \<open>getComponentData\<close> of
  \<open>@backstage/core-plugin-api\<close> are not among the sources. The spec calls an extension
  "a framework-registered component" and the elements of one "marked": the framework
  keeps, for a component, the data attached to it under string keys, and
  \<open>getComponentData(node, key)\<close> reads the data of the component that a React element
  is an instance of (nothing for a node that is no element of a registered component).
  A component is identified by its name.
\<close>

record component_info =
  comp_sync :: "obj \<Rightarrow> val"
  comp_data :: "string \<Rightarrow> extension_data option"

type_synonym store = "string \<Rightarrow> component_info option"

definition createReactExtension ::
  "string \<Rightarrow> (obj \<Rightarrow> val) \<Rightarrow> (string \<times> extension_data) list \<Rightarrow> store \<Rightarrow> string \<times> store" where
  "createReactExtension name sync data st =
     (name, st(name \<mapsto> \<lparr>comp_sync = sync, comp_data = map_of data\<rparr>))"

definition getComponentData :: "store \<Rightarrow> val \<Rightarrow> string \<Rightarrow> extension_data option" where
  "getComponentData st node key =
     (case node of
        Element (Comp c) ps \<Rightarrow> (case st c of None \<Rightarrow> None | Some info \<Rightarrow> comp_data info key)
      | _ \<Rightarrow> None)"

text \<open>\<open>SearchResultListItemExtensionOptions\<close>: the predicate is optional.\<close>

record extension_options =
  opt_name :: string
  opt_component :: string
  opt_predicate :: "(result \<Rightarrow> bool) option"

text \<open>
  \<open>createSearchResultListItemExtension\<close>: the destructuring default
  \<open>predicate = () => true\<close> applies when the option is \<open>undefined\<close>; the extension's
  own component renders \<open>null\<close>.
\<close>

definition createSearchResultListItemExtension ::
  "extension_options \<Rightarrow> store \<Rightarrow> string \<times> store" where
  "createSearchResultListItemExtension options st =
     (let name = opt_name options;
          component = opt_component options;
          predicate = (case opt_predicate options of None \<Rightarrow> (\<lambda>r. True) | Some p \<Rightarrow> p)
      in createReactExtension name (\<lambda>props. Null)
           [(SEARCH_RESULT_LIST_ITEM_EXTENSION,
             \<lparr>ext_component = component, ext_predicate = Some predicate\<rparr>)] st)"

text \<open>
  The element that \<open>findSearchResultListItemExtensionElement\<close> returns for a matching
  \<open>element\<close>: a \<open>div\<close> with role button that takes the element's click and key handlers,
  around the extension's component created with the result's rank, highlight and
  document and then the rest of the element's props.
\<close>

definition extensionElement :: "obj \<Rightarrow> extension_data \<Rightarrow> result \<Rightarrow> val" where
  "extensionElement props data result =
     (let onClick = get props ''onClick'';
          onKeyDown = get props ''onKeyDown'';
          rest = omit [''onClick'', ''onKeyDown''] props
      in createElement (Host ''div'')
           [(''role'', Str ''button''), (''tabIndex'', Num 0),
            (''onClick'', onClick), (''onKeyDown'', onKeyDown)]
           [createElement (Comp (ext_component data))
              (spread [(''rank'', rank result), (''highlight'', highlight result),
                       (''result'', Obj (document result))] rest) []])"

text \<open>
  \<open>findSearchResultListItemExtensionElement\<close>: the \<open>for\<close> loop over the elements, each
  \<open>continue\<close> a recursive call on the remaining ones. \<open>predicate?.(result)\<close> is
  \<open>undefined\<close>, hence falsy, when the data has no predicate. The function that reads
  the data of a node, \<open>getComponentData\<close>, is a parameter.
\<close>

type_synonym data_reader = "val \<Rightarrow> string \<Rightarrow> extension_data option"

fun findSearchResultListItemExtensionElement :: "data_reader \<Rightarrow> val list \<Rightarrow> result \<Rightarrow> val" where
  "findSearchResultListItemExtensionElement getData [] result = Null"
| "findSearchResultListItemExtensionElement getData (element # elements) result =
     (if \<not> isValidElement element
      then findSearchResultListItemExtensionElement getData elements result
      else case getData element SEARCH_RESULT_LIST_ITEM_EXTENSION of
             None \<Rightarrow> findSearchResultListItemExtensionElement getData elements result
           | Some data \<Rightarrow>
               if \<not> (case ext_predicate data of None \<Rightarrow> False | Some p \<Rightarrow> p result)
               then findSearchResultListItemExtensionElement getData elements result
               else (case element of
                       Element t props \<Rightarrow> extensionElement props data result
                     | _ \<Rightarrow> Null))"

text \<open>
  \<open>useSearchResultListItemExtensionElements\<close>: \<open>useElementFilter\<close> is a hook of
  \<open>@backstage/core-plugin-api\<close>, taken as a parameter; the collection it hands to the
  callback is seen through \<open>selectByComponentData({key}).getElements()\<close>, a function of
  the key.
\<close>

type_synonym element_filter = "val \<Rightarrow> ((string \<Rightarrow> val list) \<Rightarrow> val list) \<Rightarrow> val list"

definition useSearchResultListItemExtensionElements :: "element_filter \<Rightarrow> val \<Rightarrow> val list" where
  "useSearchResultListItemExtensionElements useElementFilter children =
     useElementFilter children
       (\<lambda>collection. collection SEARCH_RESULT_LIST_ITEM_EXTENSION)"

text \<open>
  \<open>useSearchResultListItemExtensionRenderer\<close>: the callback it returns, applied to a
  result. \<open>element ?? fallback\<close> takes the fallback for \<open>null\<close> and \<open>undefined\<close>.
\<close>

definition useSearchResultListItemExtensionRenderer ::
  "data_reader \<Rightarrow> element_filter \<Rightarrow> val \<Rightarrow> result \<Rightarrow> val" where
  "useSearchResultListItemExtensionRenderer getData useElementFilter children result =
     (let elements = useSearchResultListItemExtensionElements useElementFilter children;
          element = findSearchResultListItemExtensionElement getData elements result
      in coalesce element
           (createElement (Comp ''DefaultResultListItem'')
              [(''rank'', rank result), (''highlight'', highlight result),
               (''result'', Obj (document result))] []))"

section \<open>The search query and the asynchronous state\<close>

text \<open>
  Modelled from the spec: the declaration of \<open>SearchQuery\<close> is not among the sources;
  the spec gives "a search query (term, types, filters, pagination cursor)". A query
  prop is a \<open>Partial<SearchQuery>\<close>, every field optional; any further field of the
  object is in the record's extension part.
\<close>

record query =
  q_term :: "string option"
  q_types :: "string list option"
  q_filters :: "obj option"
  q_pageCursor :: "string option"

text \<open>
  A prop that is an object is a reference: React compares the entries of a dependency
  list with \<open>Object.is\<close>, that is by address for an object, not by content.
\<close>

datatype 'a ref = Ref (addr: nat) (deref: 'a)

text \<open>\<open>SearchResultSet\<close>, and \<open>AsyncState<SearchResultSet>\<close> with its three flags.\<close>

record result_set =
  results :: "result list"

record async_state =
  state_loading :: bool
  state_error :: val
  state_value :: "result_set option"

text \<open>
  The hook \<open>useAsync(fn, deps)\<close> of react-use is not part of the repository. Its state,
  kept by React between the renders of one component instance: the dependency list of
  the last run of the effect, the promises that the calls of \<open>fn\<close> returned, oldest
  first, and the state it reports. On mount the state is loading with nothing else. A
  render returns the current state; the effect then calls \<open>fn\<close> once if the
  dependencies are new or differ from the last ones, and marks the state as loading.
  When the promise of the latest call settles, the state becomes its value or its error;
  an earlier call that settles late is ignored.
\<close>

record 'p async_hook =
  hook_deps :: "nat list option"
  hook_calls :: "'p list"
  hook_state :: async_state

definition mount :: "'p async_hook" where
  "mount = \<lparr>hook_deps = None, hook_calls = [],
            hook_state = \<lparr>state_loading = True, state_error = Undefined, state_value = None\<rparr>\<rparr>"

definition useAsync :: "(unit \<Rightarrow> 'p) \<Rightarrow> nat list \<Rightarrow> 'p async_hook \<Rightarrow> async_state \<times> 'p async_hook" where
  "useAsync fn deps h =
     (hook_state h,
      if hook_deps h = Some deps then h
      else h\<lparr>hook_deps := Some deps,
             hook_calls := hook_calls h @ [fn ()],
             hook_state := (hook_state h)\<lparr>state_loading := True\<rparr>\<rparr>)"

definition resolve :: "nat \<Rightarrow> result_set \<Rightarrow> 'p async_hook \<Rightarrow> 'p async_hook" where
  "resolve i v h =
     (if Suc i = length (hook_calls h)
      then h\<lparr>hook_state := \<lparr>state_loading = False, state_error = Undefined, state_value = Some v\<rparr>\<rparr>
      else h)"

definition reject :: "nat \<Rightarrow> val \<Rightarrow> 'p async_hook \<Rightarrow> 'p async_hook" where
  "reject i e h =
     (if Suc i = length (hook_calls h)
      then h\<lparr>hook_state := \<lparr>state_loading = False, state_error = e, state_value = None\<rparr>\<rparr>
      else h)"

section \<open>SearchResult.tsx\<close>

text \<open>
  What a component takes from its surroundings: the reader of component data,
  the element filter hook, the search context (\<open>useSearch()\<close>), the injected search
  API (\<open>useApi(searchApiRef).query\<close>) and, for the group, \<open>qs.stringify\<close>, the class
  names of \<open>useStyles()\<close>, JavaScript's \<open>String\<close> and the menu anchor kept by
  \<open>useState\<close>.
\<close>

record search_context =
  ctx_result :: async_state

record ('a, 'p) env =
  env_getComponentData :: data_reader
  useElementFilter :: element_filter
  useSearch :: search_context
  searchApi_query :: "'a query_scheme \<Rightarrow> 'p"
  qs_stringify :: "obj \<Rightarrow> obj \<Rightarrow> string"
  classes :: "string \<Rightarrow> string"
  js_String :: "val \<Rightarrow> string"
  anchorEl :: val

record context_props =
  children :: "async_state \<Rightarrow> val"

record 'a api_props = context_props +
  api_query :: "'a query_scheme ref"

record 'a state_props = context_props +
  state_query :: "'a query_scheme ref option"

text \<open>\<open>SearchResultContext\<close>: the child function applied to the result of the context.\<close>

definition SearchResultContext :: "('a, 'p) env \<Rightarrow> context_props \<Rightarrow> val" where
  "SearchResultContext env props =
     (let context = useSearch env;
          state = ctx_result context
      in children props state)"

text \<open>
  The object that \<open>SearchResultApi\<close> passes to \<open>searchApi.query\<close>:
  \<open>const { term = '', types = [], filters = {}, ...rest } = query\<close> and then
  \<open>{ ...rest, term, types, filters }\<close>.
\<close>

definition SearchResultApi_request :: "'a query_scheme \<Rightarrow> 'a query_scheme" where
  "SearchResultApi_request q =
     (let term' = (case q_term q of None \<Rightarrow> '''' | Some t \<Rightarrow> t);
          types' = (case q_types q of None \<Rightarrow> [] | Some ts \<Rightarrow> ts);
          filters' = (case q_filters q of None \<Rightarrow> [] | Some fs \<Rightarrow> fs)
      in q\<lparr>q_term := Some term', q_types := Some types', q_filters := Some filters'\<rparr>)"

text \<open>
  \<open>SearchResultApi\<close>: \<open>useAsync\<close> with the dependency list \<open>[query]\<close>, and the child
  function applied to the state the hook returns. The hook state is threaded.
\<close>

definition SearchResultApi ::
  "('a, 'p) env \<Rightarrow> 'a api_props \<Rightarrow> 'p async_hook \<Rightarrow> val \<times> 'p async_hook" where
  "SearchResultApi env props h =
     (let query = api_query props;
          (state, h') = useAsync (\<lambda>_. searchApi_query env (SearchResultApi_request (deref query)))
                          [addr query] h
      in (children props state, h'))"

text \<open>
  \<open>SearchResultState\<close>: \<open>query ? <SearchResultApi ...> : <SearchResultContext>\<close>. An
  element of a component of these files is the component applied to the props, as React
  renders it. A query object is truthy, so the test is whether the prop is there.
\<close>

definition SearchResultState ::
  "('a, 'p) env \<Rightarrow> 'a state_props \<Rightarrow> 'p async_hook \<Rightarrow> val \<times> 'p async_hook" where
  "SearchResultState env props h =
     (case state_query props of
        Some query \<Rightarrow> SearchResultApi env \<lparr>children = children props, api_query = query\<rparr> h
      | None \<Rightarrow> (SearchResultContext env \<lparr>children = children props\<rparr>, h))"

text \<open>
  The children of \<open>SearchResult\<close>: a function of the result set, or nodes
  (\<open>null | JSX.Element | JSX.Element[]\<close>, \<open>Undefined\<close> when omitted).
\<close>

datatype result_children = RenderFn "result_set \<Rightarrow> val" | Nodes val

definition children_node :: "result_children \<Rightarrow> val" where
  "children_node c = (case c of RenderFn f \<Rightarrow> Fun ''children'' | Nodes v \<Rightarrow> v)"

record 'a result_props =
  sr_query :: "'a query_scheme ref option"
  sr_children :: result_children
  sr_noResultsComponent :: "val option"
  sr_rest :: obj

definition EmptyState_no_results :: val where
  "EmptyState_no_results =
     createElement (Comp ''EmptyState'')
       [(''missing'', Str ''data''), (''title'', Str ''Sorry, no results were found'')] []"

definition ResponseErrorPanel :: "val \<Rightarrow> val" where
  "ResponseErrorPanel error =
     createElement (Comp ''ResponseErrorPanel'')
       [(''title'', Str ''Error encountered while fetching search results''),
        (''error'', error)] []"

text \<open>
  The function that \<open>SearchResultComponent\<close> gives to \<open>SearchResultState\<close> as its child.
  The key of a \<open>Fragment\<close> is written as a prop.
\<close>

definition SearchResultComponent_render ::
  "('a, 'p) env \<Rightarrow> 'a result_props \<Rightarrow> async_state \<Rightarrow> val" where
  "SearchResultComponent_render env props state =
     (let noResultsComponent =
            (case sr_noResultsComponent props of None \<Rightarrow> EmptyState_no_results | Some c \<Rightarrow> c);
          renderResultItem =
            useSearchResultListItemExtensionRenderer (env_getComponentData env) (useElementFilter env)
              (children_node (sr_children props))
      in if state_loading state then createElement (Comp ''Progress'') [] []
         else if truthy (state_error state) then ResponseErrorPanel (state_error state)
         else (case state_value state of
                 None \<Rightarrow> noResultsComponent
               | Some v \<Rightarrow>
                   if results v = [] then noResultsComponent
                   else (case sr_children props of
                           RenderFn f \<Rightarrow> f v
                         | Nodes n \<Rightarrow>
                             createElement (Comp ''List'') (sr_rest props)
                               [Arr (map (\<lambda>(index, result).
                                       createElement (Comp ''Fragment'') [(''key'', Num (int index))]
                                         [renderResultItem result])
                                     (enumerate 0 (results v)))])))"

definition SearchResultComponent ::
  "('a, 'p) env \<Rightarrow> 'a result_props \<Rightarrow> 'p async_hook \<Rightarrow> val \<times> 'p async_hook" where
  "SearchResultComponent env props h =
     SearchResultState env
       \<lparr>children = SearchResultComponent_render env props, state_query = sr_query props\<rparr> h"

definition AnalyticsContext :: "string \<Rightarrow> val \<Rightarrow> val" where
  "AnalyticsContext extension child =
     createElement (Comp ''AnalyticsContext'')
       [(''attributes'', Obj [(''pluginId'', Str ''search''), (''extension'', Str extension)])]
       [child]"

definition SearchResult ::
  "('a, 'p) env \<Rightarrow> 'a result_props \<Rightarrow> 'p async_hook \<Rightarrow> val \<times> 'p async_hook" where
  "SearchResult env props h =
     (let (out, h') = SearchResultComponent env props h
      in (AnalyticsContext ''SearchResult'' out, h'))"

section \<open>SearchResultGroup.tsx\<close>

text \<open>
  The props that \<open>SearchResultGroup\<close> hands on to \<open>SearchResultGroupLayout\<close>, an
  optional one \<open>None\<close> when it is \<open>undefined\<close>; \<open>rest\<close> holds the props of the list.
  The layout adds the loading flag, the error, the filter fields and the result items;
  the group adds the query, its children and the switch that hides an empty group.
\<close>

record common_props =
  icon :: val
  title :: val
  titleProps :: "obj option"
  link :: "val option"
  linkProps :: "obj option"
  filterOptions :: "val list option"
  renderFilterOption :: "(val \<Rightarrow> nat \<Rightarrow> val list \<Rightarrow> val) option"
  renderFilterField :: "(string \<Rightarrow> val) option"
  renderResultItem :: "(result \<Rightarrow> nat \<Rightarrow> result list \<Rightarrow> val) option"
  noResultsComponent :: "val option"
  rest :: obj

record layout_props = common_props +
  loading :: "bool option"
  error :: val
  filterFields :: "string list option"
  resultItems :: "result list option"

record 'a group_props = common_props +
  group_query :: "'a query_scheme ref option"
  group_children :: val
  disableRenderingWithNoResults :: "bool option"

text \<open>\<open>xs.map((value, index, array) => f(value, index, array))\<close>.\<close>

definition js_map :: "('x \<Rightarrow> nat \<Rightarrow> 'x list \<Rightarrow> val) \<Rightarrow> 'x list \<Rightarrow> val list" where
  "js_map f xs = map (\<lambda>(index, x). f x index xs) (enumerate 0 xs)"

text \<open>The header of the group: icon, title, the filter menu, the filter chips, the link.\<close>

definition SearchResultGroupLayout_subheader :: "('a, 'p) env \<Rightarrow> layout_props \<Rightarrow> val" where
  "SearchResultGroupLayout_subheader env props =
     (let titleProps' = (case titleProps props of None \<Rightarrow> [] | Some t \<Rightarrow> t);
          link' = (case link props of
                    None \<Rightarrow>
                      createElement (Comp ''Fragment'') []
                        [Str ''See all'',
                         createElement (Comp ''ArrowRightIcon'')
                           [(''className'', Str (classes env ''listSubheaderLinkIcon''))] []]
                  | Some l \<Rightarrow> l);
          linkProps' = (case linkProps props of None \<Rightarrow> [] | Some l \<Rightarrow> l);
          renderFilterOption' =
            (case renderFilterOption props of
               None \<Rightarrow>
                 (\<lambda>filterOption index array.
                    createElement (Comp ''MenuItem'')
                      [(''key'', Str (js_String env filterOption)),
                       (''value'', Str (js_String env filterOption))]
                      [filterOption])
             | Some f \<Rightarrow> f);
          handleClick = Fun ''handleClick'';
          handleClose = Fun ''handleClose''
      in createElement (Comp ''ListSubheader'')
           [(''className'', Str (classes env ''listSubheader''))]
           [icon props,
            createElement (Comp ''Typography'')
              (spread [(''className'', Str (classes env ''listSubheaderName'')),
                       (''component'', Str ''strong'')] titleProps')
              [title props],
            (case filterOptions props of
               Some opts \<Rightarrow>
                 createElement (Comp ''Chip'')
                   [(''className'', Str (classes env ''listSubheaderChip'')),
                    (''component'', Str ''button''),
                    (''icon'', createElement (Comp ''AddIcon'') [] []),
                    (''variant'', Str ''outlined''),
                    (''label'', Str ''Add filter''),
                    (''aria-controls'', Str ''filters-menu''),
                    (''aria-haspopup'', Str ''true''),
                    (''onClick'', handleClick)] []
             | None \<Rightarrow> Null),
            (case filterOptions props of
               Some opts \<Rightarrow>
                 createElement (Comp ''Menu'')
                   [(''id'', Str ''filters-menu''),
                    (''anchorEl'', anchorEl env),
                    (''open'', Bool (truthy (anchorEl env))),
                    (''onClose'', handleClose),
                    (''onClick'', handleClose),
                    (''keepMounted'', Bool True)]
                   [Arr (js_map renderFilterOption' opts)]
             | None \<Rightarrow> Null),
            (case filterFields props of
               Some keys \<Rightarrow>
                 Arr (map (\<lambda>filterField.
                             case renderFilterField props of
                               None \<Rightarrow> Null
                             | Some f \<Rightarrow> coalesce (f filterField) Null)
                          keys)
             | None \<Rightarrow> Undefined),
            createElement (Comp ''Link'')
              (spread [(''className'', Str (classes env ''listSubheaderLink'')),
                       (''to'', Str ''/search'')] linkProps')
              [link']])"

text \<open>
  \<open>SearchResultGroupLayout\<close>. After the loading branch the source has the statement
  \<open>if (error) { <ResponseErrorPanel ... />; }\<close>: the element is built and dropped,
  nothing is returned there, and the function goes on to the list.
\<close>

definition SearchResultGroupLayout :: "('a, 'p) env \<Rightarrow> layout_props \<Rightarrow> val" where
  "SearchResultGroupLayout env props =
     (let renderResultItem' =
            (case renderResultItem props of
               None \<Rightarrow>
                 (\<lambda>resultItem index array.
                    createElement (Comp ''DefaultResultListItem'')
                      [(''key'', get (document resultItem) ''location''),
                       (''result'', Obj (document resultItem))] [])
             | Some f \<Rightarrow> f);
          noResultsComponent' =
            (case noResultsComponent props of None \<Rightarrow> EmptyState_no_results | Some c \<Rightarrow> c)
      in if loading props = Some True then createElement (Comp ''Progress'') [] []
         else
           (let dropped = (if truthy (error props) then ResponseErrorPanel (error props)
                           else Undefined)
            in createElement (Comp ''List'') (rest props)
                 [SearchResultGroupLayout_subheader env props,
                  (case resultItems props of
                     None \<Rightarrow> createElement (Comp ''ListItem'') [] [noResultsComponent']
                   | Some items \<Rightarrow>
                       if items = []
                       then createElement (Comp ''ListItem'') [] [noResultsComponent']
                       else Arr (js_map (\<lambda>v index array.
                                   createElement (Comp ''Fragment'') [(''key'', Num (int index))]
                                     [renderResultItem' v index array])
                                 items))]))"

text \<open>A field read through \<open>query?.field\<close>, as a value: \<open>undefined\<close> when either is absent.\<close>

definition query_field ::
  "'a query_scheme ref option \<Rightarrow> ('a query_scheme \<Rightarrow> 'b option) \<Rightarrow> ('b \<Rightarrow> val) \<Rightarrow> val" where
  "query_field query field to_val =
     (case query of
        None \<Rightarrow> Undefined
      | Some q \<Rightarrow> (case field (deref q) of None \<Rightarrow> Undefined | Some x \<Rightarrow> to_val x))"

text \<open>
  The object that \<open>SearchResultGroup\<close> gives to \<open>qs.stringify\<close>, and the link target
  \<open>`/search?${qs.stringify({...}, { arrayFormat: 'brackets' })}`\<close>.
\<close>

definition SearchResultGroup_params :: "'a query_scheme ref option \<Rightarrow> obj" where
  "SearchResultGroup_params query =
     [(''query'', query_field query q_term Str),
      (''types'', query_field query q_types (\<lambda>ts. Arr (map Str ts))),
      (''filters'', query_field query q_filters Obj),
      (''pageCursor'', query_field query q_pageCursor Str)]"

definition SearchResultGroup_to :: "('a, 'p) env \<Rightarrow> 'a query_scheme ref option \<Rightarrow> string" where
  "SearchResultGroup_to env query =
     ''/search?'' @ qs_stringify env (SearchResultGroup_params query)
                      [(''arrayFormat'', Str ''brackets'')]"

text \<open>
  The function that \<open>SearchResultGroup\<close> gives to \<open>SearchResultState\<close> as its child.
  \<open>!value?.results?.length\<close> holds without a value and for an empty list.
\<close>

definition SearchResultGroup_render ::
  "('a, 'p) env \<Rightarrow> 'a group_props \<Rightarrow> async_state \<Rightarrow> val" where
  "SearchResultGroup_render env props state =
     (let query = group_query props;
          linkProps' = (case linkProps props of None \<Rightarrow> [] | Some l \<Rightarrow> l);
          to = SearchResultGroup_to env query;
          defaultRenderResultItem =
            useSearchResultListItemExtensionRenderer (env_getComponentData env) (useElementFilter env)
              (group_children props)
      in if (case state_value state of None \<Rightarrow> True | Some v \<Rightarrow> results v = [])
            \<and> disableRenderingWithNoResults props = Some True
         then Null
         else SearchResultGroupLayout env
                \<lparr>icon = icon props,
                 title = title props,
                 titleProps = titleProps props,
                 link = link props,
                 linkProps = Some (spread [(''to'', Str to)] linkProps'),
                 filterOptions = filterOptions props,
                 renderFilterOption = renderFilterOption props,
                 renderFilterField = renderFilterField props,
                 renderResultItem =
                   Some (case renderResultItem props of
                           None \<Rightarrow> (\<lambda>r index array. defaultRenderResultItem r)
                         | Some f \<Rightarrow> f),
                 noResultsComponent = noResultsComponent props,
                 rest = rest props,
                 loading = Some (state_loading state),
                 error = state_error state,
                 filterFields =
                   Some (case query of
                           None \<Rightarrow> []
                         | Some q \<Rightarrow> (case q_filters (deref q) of None \<Rightarrow> [] | Some fs \<Rightarrow> map fst fs)),
                 resultItems = map_option results (state_value state)\<rparr>)"

definition SearchResultGroup ::
  "('a, 'p) env \<Rightarrow> 'a group_props \<Rightarrow> 'p async_hook \<Rightarrow> val \<times> 'p async_hook" where
  "SearchResultGroup env props h =
     (let (out, h') = SearchResultState env
                        \<lparr>children = SearchResultGroup_render env props,
                         state_query = group_query props\<rparr> h
      in (AnalyticsContext ''SearchResultGroup'' out, h'))"

section \<open>The Azure Functions overview widget\<close>

text \<open>
  Modelled from the spec: the declaration of \<open>Entity\<close> is not among the sources; the
  spec has "a catalog record" with annotations, "a key on a catalog record". The
  annotations are an optional map from keys to strings under the metadata.
\<close>

record entity_meta =
  annotations :: "(string \<times> string) list option"

record entity =
  metadata :: entity_meta

text \<open>
  The first component of what \<open>useFunctions\<close> returns, and the surroundings of the
  widget: the annotation key, the entity of \<open>useEntity()\<close> and the two hooks, none of
  them among the sources.
\<close>

record functions_state =
  fs_data :: val
  fs_loading :: val

record azure_env =
  AZURE_FUNCTIONS_ANNOTATION :: string
  useEntity :: entity
  useServiceEntityAnnotations :: "entity \<Rightarrow> val"
  useFunctions :: "val \<Rightarrow> functions_state"

text \<open>
  The columns of the table; a render function is a function value, named. The styles
  and the title are as in the source.
\<close>

definition DEFAULT_COLUMNS :: "val list" where
  "DEFAULT_COLUMNS =
     [Obj [(''title'', Str ''name''), (''highlight'', Bool True), (''render'', Fun ''name'')],
      Obj [(''title'', Str ''location''), (''render'', Fun ''location'')],
      Obj [(''title'', Str ''status''), (''render'', Fun ''status'')],
      Obj [(''title'', Str ''last modified''), (''render'', Fun ''last modified'')],
      Obj [(''title'', Str ''logs''), (''align'', Str ''right''), (''render'', Fun ''logs'')]]"

definition OverviewComponent :: "val \<Rightarrow> val \<Rightarrow> val" where
  "OverviewComponent data isLoading =
     (let columns = DEFAULT_COLUMNS;
          tableStyle = [(''minWidth'', Str ''0''), (''width'', Str ''100%'')]
      in createElement (Comp ''Card'') [(''style'', Obj tableStyle)]
           [createElement (Comp ''Table'')
              [(''title'',
                createElement (Comp ''Box'') [(''display'', Str ''flex''), (''alignItems'', Str ''center'')]
                  [createElement (Comp ''FlashOnIcon'') [(''style'', Obj [(''fontSize'', Num 30)])] [],
                   createElement (Comp ''Box'') [(''mr'', Num 1)] [],
                   Str ''Azure Functions'']),
               (''options'', Obj [(''paging'', Bool True), (''search'', Bool False), (''pageSize'', Num 10)]),
               (''data'', data),
               (''emptyContent'', createElement (Comp ''LinearProgress'') [] []),
               (''isLoading'', isLoading),
               (''columns'', Arr columns)] []])"

text \<open>
  \<open>isAzureFunctionsAvailable\<close>: \<open>entity?.metadata.annotations?.[KEY]\<close>, a string or
  \<open>undefined\<close>.
\<close>

definition isAzureFunctionsAvailable :: "azure_env \<Rightarrow> entity \<Rightarrow> val" where
  "isAzureFunctionsAvailable env entity =
     (case annotations (metadata entity) of
        None \<Rightarrow> Undefined
      | Some a \<Rightarrow> (case map_of a (AZURE_FUNCTIONS_ANNOTATION env) of
                     None \<Rightarrow> Undefined
                   | Some s \<Rightarrow> Str s))"

definition AzureFunctionsOverview :: "azure_env \<Rightarrow> entity \<Rightarrow> val" where
  "AzureFunctionsOverview env entity =
     (let functionsName = useServiceEntityAnnotations env entity;
          functionsData = useFunctions env functionsName
      in createElement (Comp ''Fragment'') []
           [OverviewComponent (coalesce (fs_data functionsData) (Arr []))
              (fs_loading functionsData)])"

definition AzureFunctionsOverviewWidget :: "azure_env \<Rightarrow> val" where
  "AzureFunctionsOverviewWidget env =
     (let entity = useEntity env
      in if \<not> truthy (isAzureFunctionsAvailable env entity)
         then createElement (Comp ''MissingAnnotationEmptyState'')
                [(''annotation'', Str (AZURE_FUNCTIONS_ANNOTATION env))] []
         else createElement (Comp ''ErrorBoundary'') [] [AzureFunctionsOverview env entity])"

section \<open>Notions of the specification\<close>

text \<open>
  An element qualifies for a result when it is a valid element, carries the extension
  data and its predicate accepts the result.
\<close>

definition qualifies :: "data_reader \<Rightarrow> result \<Rightarrow> val \<Rightarrow> bool" where
  "qualifies getData result e =
     (isValidElement e \<and>
      (case getData e SEARCH_RESULT_LIST_ITEM_EXTENSION of
         None \<Rightarrow> False
       | Some data \<Rightarrow> (case ext_predicate data of None \<Rightarrow> False | Some p \<Rightarrow> p result)))"

text \<open>The rendered extension of an element: what is returned when that element matches.\<close>

definition renderedExtension :: "data_reader \<Rightarrow> val \<Rightarrow> result \<Rightarrow> val" where
  "renderedExtension getData e result =
     (case e of
        Element t props \<Rightarrow>
          (case getData e SEARCH_RESULT_LIST_ITEM_EXTENSION of
             None \<Rightarrow> Null
           | Some data \<Rightarrow> extensionElement props data result)
      | _ \<Rightarrow> Null)"

section \<open>Example inputs\<close>

text \<open>
  Two registered extensions: one for results of type \<open>techdocs\<close>, one created without a
  predicate. The children are a text node, an element of each extension and a plain
  \<open>div\<close>.
\<close>

definition example_store :: store where
  "example_store =
     snd (createSearchResultListItemExtension
            \<lparr>opt_name = ''AnyItem'', opt_component = ''AnyListItem'', opt_predicate = None\<rparr>
            (snd (createSearchResultListItemExtension
                    \<lparr>opt_name = ''DocsItem'', opt_component = ''DocsListItem'',
                     opt_predicate = Some (\<lambda>r. rtype r = ''techdocs'')\<rparr>
                    Map.empty)))"

definition example_data :: data_reader where
  "example_data = getComponentData example_store"

definition example_elements :: "val list" where
  "example_elements =
     [Str ''text'',
      Element (Host ''div'') [],
      Element (Comp ''DocsItem'') [(''onClick'', Fun ''open''), (''lineClamp'', Num 3)],
      Element (Comp ''AnyItem'') []]"

definition techdocs_result :: result where
  "techdocs_result =
     \<lparr>rtype = ''techdocs'', document = [(''title'', Str ''Guide''), (''location'', Str ''/docs/guide'')],
      highlight = Undefined, rank = Num 1\<rparr>"

definition catalog_result :: result where
  "catalog_result =
     \<lparr>rtype = ''software-catalog'',
      document = [(''title'', Str ''Service''), (''location'', Str ''/catalog/service'')],
      highlight = Undefined, rank = Num 2\<rparr>"

text \<open>An element filter that keeps, of an array of nodes, those with data under the key.\<close>

definition example_filter :: element_filter where
  "example_filter nodes select =
     select (\<lambda>key. case nodes of
                      Arr ns \<Rightarrow> filter (\<lambda>n. example_data n key \<noteq> None) ns
                    | _ \<Rightarrow> [])"

section \<open>Renders of one SearchResultApi over time\<close>

text \<open>
  What happens to one mounted \<open>SearchResultApi\<close>: React renders it with some props, or
  the promise of its call number \<open>i\<close> settles with a result set or with an error. A run
  starts at the mount and collects what each render returned.
\<close>

datatype 'a event = Render "'a api_props" | Resolved nat result_set | Rejected nat val

fun step ::
  "('a, 'p) env \<Rightarrow> 'a event \<Rightarrow> val list \<times> 'p async_hook \<Rightarrow> val list \<times> 'p async_hook" where
  "step env (Render props) (outs, h) =
     (let (out, h') = SearchResultApi env props h in (outs @ [out], h'))"
| "step env (Resolved i v) (outs, h) = (outs, resolve i v h)"
| "step env (Rejected i e) (outs, h) = (outs, reject i e h)"

definition run :: "('a, 'p) env \<Rightarrow> 'a event list \<Rightarrow> val list \<times> 'p async_hook" where
  "run env evs = foldl (\<lambda>s ev. step env ev s) ([], mount) evs"

text \<open>The query props of the renders, in order.\<close>

fun rendered_queries :: "'a event list \<Rightarrow> 'a query_scheme ref list" where
  "rendered_queries [] = []"
| "rendered_queries (Render props # evs) = api_query props # rendered_queries evs"
| "rendered_queries (ev # evs) = rendered_queries evs"

text \<open>
  The changes of a prop over the renders: the first one, and each one that is another
  object than the one before (\<open>prev\<close> is the address of the one before).
\<close>

fun changes :: "nat option \<Rightarrow> 'b ref list \<Rightarrow> 'b ref list" where
  "changes prev [] = []"
| "changes prev (q # qs) =
     (if prev = Some (addr q) then changes prev qs else q # changes (Some (addr q)) qs)"

text \<open>The call of the search API that \<open>SearchResultApi\<close> issues for a query prop.\<close>

definition issued :: "('a, 'p) env \<Rightarrow> 'a query_scheme ref \<Rightarrow> 'p" where
  "issued env q = searchApi_query env (SearchResultApi_request (deref q))"

section \<open>Example surroundings\<close>

text \<open>
  A printer in the style of \<open>qs.stringify\<close> with bracketed arrays, for strings and
  arrays of strings, without the percent encoding; like \<open>qs\<close> it leaves out a property
  whose value is \<open>undefined\<close>.
\<close>

fun join_amp :: "string list \<Rightarrow> string" where
  "join_amp [] = []"
| "join_amp [s] = s"
| "join_amp (s # ss) = s @ ''&'' @ join_amp ss"

definition simple_entry :: "string \<times> val \<Rightarrow> string list" where
  "simple_entry kv =
     (case kv of
        (k, Str s) \<Rightarrow> [k @ ''='' @ s]
      | (k, Arr vs) \<Rightarrow> map (\<lambda>v. k @ ''[]='' @ (case v of Str s \<Rightarrow> s | _ \<Rightarrow> [])) vs
      | _ \<Rightarrow> [])"

definition simple_stringify :: "obj \<Rightarrow> obj \<Rightarrow> string" where
  "simple_stringify ob opts =
     join_amp (concat (map simple_entry (filter (\<lambda>(k, v). v \<noteq> Undefined) ob)))"

text \<open>
  A search API that answers with the request itself, a context that holds one result,
  and a child function that shows which state it was given.
\<close>

definition example_env :: "(unit, query) env" where
  "example_env =
     \<lparr>env_getComponentData = example_data,
      useElementFilter = example_filter,
      useSearch = \<lparr>ctx_result = \<lparr>state_loading = False, state_error = Undefined,
                                 state_value = Some \<lparr>results = [catalog_result]\<rparr>\<rparr>\<rparr>,
      searchApi_query = (\<lambda>q. q),
      qs_stringify = simple_stringify,
      classes = (\<lambda>k. k),
      js_String = (\<lambda>v. case v of Str s \<Rightarrow> s | _ \<Rightarrow> ''''),
      anchorEl = Null\<rparr>"

definition example_child :: "async_state \<Rightarrow> val" where
  "example_child state =
     (if state_loading state then Str ''loading''
      else if truthy (state_error state) then Str ''failed''
      else case state_value state of
             None \<Rightarrow> Str ''nothing''
           | Some v \<Rightarrow> Num (int (length (results v))))"

definition docs_query :: "query ref" where
  "docs_query =
     Ref 1 \<lparr>q_term = Some ''docs'', q_types = Some [''techdocs''], q_filters = None,
            q_pageCursor = None\<rparr>"

definition api_query_other :: "query ref" where
  "api_query_other =
     Ref 2 \<lparr>q_term = None, q_types = None, q_filters = None, q_pageCursor = Some ''Mg==''\<rparr>"

text \<open>Two runs: one query prop throughout, and a query prop that changes once.\<close>

definition same_query_run :: "unit event list" where
  "same_query_run =
     [Render \<lparr>children = example_child, api_query = docs_query\<rparr>,
      Resolved 0 \<lparr>results = [techdocs_result]\<rparr>,
      Render \<lparr>children = example_child, api_query = docs_query\<rparr>,
      Render \<lparr>children = (\<lambda>state. Null), api_query = docs_query\<rparr>]"

definition changing_query_run :: "unit event list" where
  "changing_query_run =
     [Render \<lparr>children = example_child, api_query = docs_query\<rparr>,
      Render \<lparr>children = example_child, api_query = api_query_other\<rparr>,
      Rejected 0 (Str ''late''),
      Render \<lparr>children = example_child, api_query = api_query_other\<rparr>]"

section \<open>Notions of the link and of the layout\<close>

text \<open>
  What \<open>qs.stringify\<close> is relied on for: a property whose value is \<open>undefined\<close> is
  left out, so the output is that of the object without such properties.
\<close>

definition omits_undefined :: "(obj \<Rightarrow> obj \<Rightarrow> string) \<Rightarrow> bool" where
  "omits_undefined stringify =
     (\<forall>ob opts. stringify ob opts = stringify (filter (\<lambda>(k, v). v \<noteq> Undefined) ob) opts)"

text \<open>
  The query fields that are there, under their URL keys: the term under \<open>query\<close>, then
  the types, the filters and the page cursor.
\<close>

definition present_params :: "'a query_scheme ref option \<Rightarrow> obj" where
  "present_params query =
     (case query of
        None \<Rightarrow> []
      | Some q \<Rightarrow>
          (case q_term (deref q) of None \<Rightarrow> [] | Some t \<Rightarrow> [(''query'', Str t)])
          @ (case q_types (deref q) of None \<Rightarrow> [] | Some ts \<Rightarrow> [(''types'', Arr (map Str ts))])
          @ (case q_filters (deref q) of None \<Rightarrow> [] | Some fs \<Rightarrow> [(''filters'', Obj fs)])
          @ (case q_pageCursor (deref q) of None \<Rightarrow> [] | Some c \<Rightarrow> [(''pageCursor'', Str c)]))"

text \<open>
  A group of documentation results, and the props its layout gets once the fetch has
  failed: not loading, an error, no result items.
\<close>

definition docs_group_props :: "unit group_props" where
  "docs_group_props =
     \<lparr>icon = createElement (Comp ''DocsIcon'') [] [],
      title = Str ''Documentation'',
      titleProps = None,
      link = None,
      linkProps = None,
      filterOptions = None,
      renderFilterOption = None,
      renderFilterField = None,
      renderResultItem = None,
      noResultsComponent = None,
      rest = [],
      group_query = Some docs_query,
      group_children = Undefined,
      disableRenderingWithNoResults = Some True\<rparr>"

definition request_failed :: val where
  "request_failed = Obj [(''name'', Str ''Error''), (''message'', Str ''Request failed'')]"

definition failed_layout_props :: layout_props where
  "failed_layout_props =
     \<lparr>icon = createElement (Comp ''DocsIcon'') [] [],
      title = Str ''Documentation'',
      titleProps = None,
      link = Some (Str ''See all''),
      linkProps = None,
      filterOptions = None,
      renderFilterOption = None,
      renderFilterField = None,
      renderResultItem = None,
      noResultsComponent = None,
      rest = [],
      loading = Some False,
      error = request_failed,
      filterFields = None,
      resultItems = None\<rparr>"

definition failed_state :: async_state where
  "failed_state = \<lparr>state_loading = False, state_error = request_failed, state_value = None\<rparr>"

definition list_result_props :: "unit result_props" where
  "list_result_props =
     \<lparr>sr_query = None, sr_children = Nodes Undefined, sr_noResultsComponent = None, sr_rest = []\<rparr>"

text \<open>Two entities: one annotated with a functions name, one with an empty annotation.\<close>

definition azure_example :: "(string \<times> string) list option \<Rightarrow> azure_env" where
  "azure_example anns =
     \<lparr>AZURE_FUNCTIONS_ANNOTATION = ''portal.azure.com/functions-name'',
      useEntity = \<lparr>metadata = \<lparr>annotations = anns\<rparr>\<rparr>,
      useServiceEntityAnnotations =
        (\<lambda>e. case annotations (metadata e) of
                None \<Rightarrow> Undefined
              | Some a \<Rightarrow> (case map_of a ''portal.azure.com/functions-name'' of
                             None \<Rightarrow> Undefined | Some s \<Rightarrow> Str s)),
      useFunctions = (\<lambda>name. \<lparr>fs_data = Undefined, fs_loading = Bool True\<rparr>)\<rparr>"

text \<open>
  The entity of the widget is annotated when its annotations hold a truthy, that is a
  non-empty, value under the annotation key.
\<close>

definition annotated :: "azure_env \<Rightarrow> bool" where
  "annotated env =
     (\<exists>a v. annotations (metadata (useEntity env)) = Some a
            \<and> map_of a (AZURE_FUNCTIONS_ANNOTATION env) = Some v \<and> v \<noteq> [])"

text \<open>The example surroundings with a search context that has found nothing.\<close>

definition empty_context_env :: "(unit, query) env" where
  "empty_context_env =
     example_env\<lparr>useSearch := \<lparr>ctx_result = \<lparr>state_loading = False, state_error = Undefined,
                                              state_value = Some \<lparr>results = []\<rparr>\<rparr>\<rparr>\<rparr>"

text \<open>
  A group that has fetched one result for its query and is then rendered with another
  query: the hook has issued the second call and reports loading, with the result of
  the first call still as its value.
\<close>

definition other_group_props :: "unit group_props" where
  "other_group_props = docs_group_props\<lparr>group_query := Some api_query_other\<rparr>"

definition refetching_hook :: "query async_hook" where
  "refetching_hook =
     snd (SearchResultGroup example_env other_group_props
            (resolve 0 \<lparr>results = [techdocs_result]\<rparr>
               (snd (SearchResultGroup example_env docs_group_props mount))))"

section \<open>First-match dispatch of extensions\<close>

lemmas example_defs =
  example_store_def example_data_def example_elements_def techdocs_result_def catalog_result_def
  createSearchResultListItemExtension_def createReactExtension_def getComponentData_def
  qualifies_def renderedExtension_def isValidElement_def SEARCH_RESULT_LIST_ITEM_EXTENSION_def
  extensionElement_def createElement_def get_def set_prop_def spread_def omit_def Let_def

lemma extensionElement_not_nullish: "\<not> nullish (extensionElement props data result)"
  by (simp add: extensionElement_def createElement_def nullish_def Let_def)

lemma find_step:
  "findSearchResultListItemExtensionElement gd (e # es) result =
     (if qualifies gd result e then renderedExtension gd e result
      else findSearchResultListItemExtensionElement gd es result)"
  by (auto simp: qualifies_def renderedExtension_def isValidElement_def
           split: option.splits val.splits)

lemma find_as_first_match:
  "findSearchResultListItemExtensionElement gd es result =
     (case List.find (qualifies gd result) es of
        None \<Rightarrow> Null
      | Some e \<Rightarrow> renderedExtension gd e result)"
proof (induction es)
  case Nil
  show ?case by simp
next
  case (Cons e es)
  show ?case unfolding find_step using Cons.IH by simp
qed

lemma rendered_not_nullish:
  "qualifies gd result e \<Longrightarrow> \<not> nullish (renderedExtension gd e result)"
  by (auto simp: qualifies_def renderedExtension_def isValidElement_def extensionElement_not_nullish
           split: option.splits val.splits)

lemma find_nullish_iff:
  "nullish (findSearchResultListItemExtensionElement gd es result) \<longleftrightarrow>
     (\<forall>e \<in> set es. \<not> qualifies gd result e)"
proof (induction es)
  case Nil
  show ?case by (simp add: nullish_def)
next
  case (Cons e es)
  show ?case unfolding find_step using Cons.IH rendered_not_nullish[of gd result e] by auto
qed

lemma created_name: "fst (createSearchResultListItemExtension options st) = opt_name options"
  by (simp add: createSearchResultListItemExtension_def createReactExtension_def Let_def)

text \<open>
  C1. For every list of child elements and every search result,
  \<open>findSearchResultListItemExtensionElement\<close> returns the rendered extension of the
  first element in list order that is a valid element, carries the extension data and
  whose predicate accepts the result, and \<open>null\<close> when no element of the list
  qualifies.
\<close>

theorem find_first_match:
  "findSearchResultListItemExtensionElement gd elements result =
     (case List.find (qualifies gd result) elements of
        None \<Rightarrow> Null
      | Some e \<Rightarrow> renderedExtension gd e result)
   \<and> ((\<forall>e \<in> set elements. \<not> qualifies gd result e) \<longrightarrow>
        findSearchResultListItemExtensionElement gd elements result = Null)
   \<and> (\<forall>i < length elements.
         qualifies gd result (elements ! i) \<and> (\<forall>j < i. \<not> qualifies gd result (elements ! j)) \<longrightarrow>
           findSearchResultListItemExtensionElement gd elements result
             = renderedExtension gd (elements ! i) result
           \<and> findSearchResultListItemExtensionElement gd elements result \<noteq> Null)"
proof (intro conjI allI impI)
  show eq: "findSearchResultListItemExtensionElement gd elements result =
     (case List.find (qualifies gd result) elements of
        None \<Rightarrow> Null
      | Some e \<Rightarrow> renderedExtension gd e result)"
    by (rule find_as_first_match)
  show "findSearchResultListItemExtensionElement gd elements result = Null"
    if "\<forall>e \<in> set elements. \<not> qualifies gd result e"
  proof -
    from that have "List.find (qualifies gd result) elements = None"
      by (simp add: find_None_iff)
    with eq show ?thesis by simp
  qed
  fix i
  assume i: "i < length elements"
    and q: "qualifies gd result (elements ! i) \<and> (\<forall>j < i. \<not> qualifies gd result (elements ! j))"
  then have "List.find (qualifies gd result) elements = Some (elements ! i)"
    by (auto simp: find_Some_iff)
  with eq show "findSearchResultListItemExtensionElement gd elements result
             = renderedExtension gd (elements ! i) result" by simp
  from i q have "\<not> (\<forall>e \<in> set elements. \<not> qualifies gd result e)"
    using nth_mem by blast
  then have "\<not> nullish (findSearchResultListItemExtensionElement gd elements result)"
    by (simp add: find_nullish_iff)
  then show "findSearchResultListItemExtensionElement gd elements result \<noteq> Null"
    by (auto simp: nullish_def)
qed

theorem find_first_match_witness:
  "qualifies example_data techdocs_result (example_elements ! 2)
   \<and> \<not> qualifies example_data techdocs_result (example_elements ! 0)
   \<and> \<not> qualifies example_data techdocs_result (example_elements ! 1)
   \<and> findSearchResultListItemExtensionElement example_data example_elements techdocs_result
       = Element (Host ''div'')
           [(''role'', Str ''button''), (''tabIndex'', Num 0),
            (''onClick'', Fun ''open''), (''onKeyDown'', Undefined),
            (''children'',
             Element (Comp ''DocsListItem'')
               [(''rank'', Num 1), (''highlight'', Undefined),
                (''result'', Obj [(''title'', Str ''Guide''), (''location'', Str ''/docs/guide'')]),
                (''lineClamp'', Num 3)])]
   \<and> \<not> qualifies example_data catalog_result (Str ''text'')
   \<and> \<not> qualifies example_data catalog_result (Element (Host ''div'') [])
   \<and> findSearchResultListItemExtensionElement example_data
         [Str ''text'', Element (Host ''div'') []] catalog_result
       = Null"
proof -
  have q: "qualifies example_data techdocs_result (example_elements ! 2)"
    by (simp add: example_defs)
  have n0: "\<not> qualifies example_data techdocs_result (example_elements ! 0)"
    and n1: "\<not> qualifies example_data techdocs_result (example_elements ! 1)"
    by (simp_all add: example_defs)
  have n: "\<forall>j < 2. \<not> qualifies example_data techdocs_result (example_elements ! j)"
    using n0 n1 by (simp add: less_2_cases_iff)
  have l: "2 < length example_elements"
    by (simp add: example_elements_def)
  have r: "renderedExtension example_data (example_elements ! 2) techdocs_result
       = Element (Host ''div'')
           [(''role'', Str ''button''), (''tabIndex'', Num 0),
            (''onClick'', Fun ''open''), (''onKeyDown'', Undefined),
            (''children'',
             Element (Comp ''DocsListItem'')
               [(''rank'', Num 1), (''highlight'', Undefined),
                (''result'', Obj [(''title'', Str ''Guide''), (''location'', Str ''/docs/guide'')]),
                (''lineClamp'', Num 3)])]"
    by (simp add: example_defs)
  have m0: "\<not> qualifies example_data catalog_result (Str ''text'')"
    and m1: "\<not> qualifies example_data catalog_result (Element (Host ''div'') [])"
    by (simp_all add: example_defs)
  then have m: "\<forall>e \<in> set [Str ''text'', Element (Host ''div'') []].
                  \<not> qualifies example_data catalog_result e"
    by simp
  from find_first_match[of example_data example_elements techdocs_result] l q n
  have "findSearchResultListItemExtensionElement example_data example_elements techdocs_result
          = renderedExtension example_data (example_elements ! 2) techdocs_result"
    by blast
  moreover
  from find_first_match[of example_data "[Str ''text'', Element (Host ''div'') []]" catalog_result] m
  have "findSearchResultListItemExtensionElement example_data
          [Str ''text'', Element (Host ''div'') []] catalog_result = Null"
    by blast
  ultimately show ?thesis using q n0 n1 r m0 m1 by simp
qed

text \<open>
  C6. An element of an extension created by \<open>createSearchResultListItemExtension\<close>
  carries the component and the predicate of the options, and is rendered for exactly
  the results that the predicate accepts; when the options omit the predicate it is the
  function that returns true, and every result is rendered. The component of the
  extension itself renders \<open>null\<close>.
\<close>

theorem created_extension_renders_accepted:
  "(let (c, st') = createSearchResultListItemExtension options st;
        e = Element (Comp c) props;
        p = (case opt_predicate options of None \<Rightarrow> (\<lambda>r. True) | Some p \<Rightarrow> p);
        d = \<lparr>ext_component = opt_component options, ext_predicate = Some p\<rparr>
    in getComponentData st' e SEARCH_RESULT_LIST_ITEM_EXTENSION = Some d
       \<and> map_option (\<lambda>info. comp_sync info props) (st' c) = Some Null
       \<and> (\<forall>r. findSearchResultListItemExtensionElement (getComponentData st') [e] r
                = (if p r then extensionElement props d r else Null))
       \<and> filter (\<lambda>r. findSearchResultListItemExtensionElement (getComponentData st') [e] r \<noteq> Null)
            rs = filter p rs
       \<and> (opt_predicate options = None \<longrightarrow>
            (\<forall>r. findSearchResultListItemExtensionElement (getComponentData st') [e] r \<noteq> Null)))"
proof -
  obtain c st' where cr: "createSearchResultListItemExtension options st = (c, st')"
    by (cases "createSearchResultListItemExtension options st")
  define p where "p = (case opt_predicate options of None \<Rightarrow> (\<lambda>r. True) | Some p \<Rightarrow> p)"
  define d where "d = \<lparr>ext_component = opt_component options, ext_predicate = Some p\<rparr>"
  define e where "e = Element (Comp c) props"
  have c: "c = opt_name options"
    and st': "st' = st(opt_name options \<mapsto>
                \<lparr>comp_sync = (\<lambda>props. Null),
                 comp_data = map_of [(SEARCH_RESULT_LIST_ITEM_EXTENSION, d)]\<rparr>)"
    using cr by (auto simp: createSearchResultListItemExtension_def createReactExtension_def
                      Let_def d_def p_def)
  have data: "getComponentData st' e SEARCH_RESULT_LIST_ITEM_EXTENSION = Some d"
    by (simp add: getComponentData_def e_def c st')
  have sync: "map_option (\<lambda>info. comp_sync info props) (st' c) = Some Null"
    by (simp add: c st')
  have one: "findSearchResultListItemExtensionElement (getComponentData st') [e] r
               = (if p r then extensionElement props d r else Null)" for r
    using data by (simp add: isValidElement_def e_def d_def)
  have ne: "findSearchResultListItemExtensionElement (getComponentData st') [e] r \<noteq> Null \<longleftrightarrow> p r" for r
    using extensionElement_not_nullish[of props d r] unfolding one by (auto simp: nullish_def)
  have flt: "filter (\<lambda>r. findSearchResultListItemExtensionElement (getComponentData st') [e] r \<noteq> Null) rs = filter p rs"
    unfolding ne by simp
  have all: "opt_predicate options = None \<longrightarrow>
               (\<forall>r. findSearchResultListItemExtensionElement (getComponentData st') [e] r \<noteq> Null)"
    unfolding ne by (simp add: p_def)
  show ?thesis
    using data sync one flt all by (simp add: cr Let_def p_def d_def e_def)
qed

theorem created_extension_renders_accepted_witness:
  "opt_predicate \<lparr>opt_name = ''AnyItem'', opt_component = ''AnyListItem'', opt_predicate = None\<rparr> = None
   \<and> (\<forall>r. findSearchResultListItemExtensionElement
             (getComponentData (snd (createSearchResultListItemExtension
                \<lparr>opt_name = ''AnyItem'', opt_component = ''AnyListItem'', opt_predicate = None\<rparr>
                Map.empty)))
             [Element (Comp ''AnyItem'') []] r \<noteq> Null)
   \<and> filter (\<lambda>r. findSearchResultListItemExtensionElement
             (getComponentData (snd (createSearchResultListItemExtension
                \<lparr>opt_name = ''DocsItem'', opt_component = ''DocsListItem'',
                 opt_predicate = Some (\<lambda>r. rtype r = ''techdocs'')\<rparr>
                Map.empty)))
             [Element (Comp ''DocsItem'') []] r \<noteq> Null) [techdocs_result, catalog_result]
       = [techdocs_result]"
proof -
  have a: "\<forall>r. findSearchResultListItemExtensionElement
             (getComponentData (snd (createSearchResultListItemExtension
                \<lparr>opt_name = ''AnyItem'', opt_component = ''AnyListItem'', opt_predicate = None\<rparr>
                Map.empty)))
             [Element (Comp ''AnyItem'') []] r \<noteq> Null"
    using conjunct2 [OF conjunct2 [OF conjunct2 [OF conjunct2
            [OF created_extension_renders_accepted
              [of "\<lparr>opt_name = ''AnyItem'', opt_component = ''AnyListItem'', opt_predicate = None\<rparr>"
                  Map.empty "[]" "[]", unfolded Let_def split_beta created_name]]]]]
    by (simp del: findSearchResultListItemExtensionElement.simps)
  have "filter (\<lambda>r. findSearchResultListItemExtensionElement
             (getComponentData (snd (createSearchResultListItemExtension
                \<lparr>opt_name = ''DocsItem'', opt_component = ''DocsListItem'',
                 opt_predicate = Some (\<lambda>r. rtype r = ''techdocs'')\<rparr>
                Map.empty)))
             [Element (Comp ''DocsItem'') []] r \<noteq> Null) [techdocs_result, catalog_result]
       = filter (\<lambda>r. rtype r = ''techdocs'') [techdocs_result, catalog_result]"
    using conjunct1 [OF conjunct2 [OF conjunct2 [OF conjunct2
            [OF created_extension_renders_accepted
              [of "\<lparr>opt_name = ''DocsItem'', opt_component = ''DocsListItem'',
                   opt_predicate = Some (\<lambda>r. rtype r = ''techdocs'')\<rparr>"
                  Map.empty "[]" "[techdocs_result, catalog_result]",
               unfolded Let_def split_beta created_name]]]]]
    by (simp del: findSearchResultListItemExtensionElement.simps)
  then have b: "filter (\<lambda>r. findSearchResultListItemExtensionElement
             (getComponentData (snd (createSearchResultListItemExtension
                \<lparr>opt_name = ''DocsItem'', opt_component = ''DocsListItem'',
                 opt_predicate = Some (\<lambda>r. rtype r = ''techdocs'')\<rparr>
                Map.empty)))
             [Element (Comp ''DocsItem'') []] r \<noteq> Null) [techdocs_result, catalog_result]
       = [techdocs_result]"
    by (simp add: techdocs_result_def catalog_result_def
             del: findSearchResultListItemExtensionElement.simps)
  show ?thesis using a b by (simp del: findSearchResultListItemExtensionElement.simps)
qed

text \<open>
  C8. For every result, the function returned by
  \<open>useSearchResultListItemExtensionRenderer\<close> returns neither \<open>null\<close> nor
  \<open>undefined\<close>: when no extension element matches the result it returns a
  \<open>DefaultResultListItem\<close> with the rank, the highlight and the document of the
  result, and otherwise the element of the first match.
\<close>

theorem renderer_never_null:
  "useSearchResultListItemExtensionRenderer gd uef nodes result \<noteq> Null
   \<and> useSearchResultListItemExtensionRenderer gd uef nodes result \<noteq> Undefined
   \<and> ((\<forall>e \<in> set (useSearchResultListItemExtensionElements uef nodes).
          \<not> qualifies gd result e) \<longrightarrow>
        useSearchResultListItemExtensionRenderer gd uef nodes result
          = createElement (Comp ''DefaultResultListItem'')
              [(''rank'', rank result), (''highlight'', highlight result),
               (''result'', Obj (document result))] [])
   \<and> (\<not> (\<forall>e \<in> set (useSearchResultListItemExtensionElements uef nodes).
             \<not> qualifies gd result e) \<longrightarrow>
        useSearchResultListItemExtensionRenderer gd uef nodes result
          = findSearchResultListItemExtensionElement gd
              (useSearchResultListItemExtensionElements uef nodes) result)"
proof -
  let ?es = "useSearchResultListItemExtensionElements uef nodes"
  let ?f = "findSearchResultListItemExtensionElement gd ?es result"
  let ?d = "createElement (Comp ''DefaultResultListItem'')
              [(''rank'', rank result), (''highlight'', highlight result),
               (''result'', Obj (document result))] []"
  have r: "useSearchResultListItemExtensionRenderer gd uef nodes result = coalesce ?f ?d"
    by (simp add: useSearchResultListItemExtensionRenderer_def Let_def)
  have d: "\<not> nullish ?d" by (simp add: createElement_def nullish_def)
  have "\<not> nullish (coalesce ?f ?d)" using d by (simp add: coalesce_def)
  then have nn: "coalesce ?f ?d \<noteq> Null \<and> coalesce ?f ?d \<noteq> Undefined"
    by (auto simp: nullish_def)
  have a: "(\<forall>e \<in> set ?es. \<not> qualifies gd result e) \<longrightarrow> coalesce ?f ?d = ?d"
    using find_nullish_iff[of gd ?es result] by (simp add: coalesce_def)
  have b: "\<not> (\<forall>e \<in> set ?es. \<not> qualifies gd result e) \<longrightarrow> coalesce ?f ?d = ?f"
    using find_nullish_iff[of gd ?es result] by (simp add: coalesce_def)
  show ?thesis unfolding r using nn a b by blast
qed

theorem renderer_never_null_witness:
  "useSearchResultListItemExtensionElements example_filter (Arr (take 3 example_elements))
     = [example_elements ! 2]
   \<and> \<not> qualifies example_data catalog_result (example_elements ! 2)
   \<and> useSearchResultListItemExtensionRenderer example_data example_filter
        (Arr (take 3 example_elements)) catalog_result
       = Element (Comp ''DefaultResultListItem'')
           [(''rank'', Num 2), (''highlight'', Undefined),
            (''result'', Obj [(''title'', Str ''Service''), (''location'', Str ''/catalog/service'')])]"
proof -
  have e: "useSearchResultListItemExtensionElements example_filter (Arr (take 3 example_elements))
             = [example_elements ! 2]"
    by (simp add: useSearchResultListItemExtensionElements_def example_filter_def example_defs)
  have n2: "\<not> qualifies example_data catalog_result (example_elements ! 2)"
    by (simp add: example_defs)
  have n: "\<forall>e \<in> set (useSearchResultListItemExtensionElements example_filter
                        (Arr (take 3 example_elements))).
             \<not> qualifies example_data catalog_result e"
    unfolding e using n2 by simp
  from renderer_never_null[of example_data example_filter "Arr (take 3 example_elements)"
         catalog_result] n
  have "useSearchResultListItemExtensionRenderer example_data example_filter
          (Arr (take 3 example_elements)) catalog_result
        = createElement (Comp ''DefaultResultListItem'')
              [(''rank'', rank catalog_result), (''highlight'', highlight catalog_result),
               (''result'', Obj (document catalog_result))] []"
    by blast
  then show ?thesis using e n2 by (simp add: createElement_def catalog_result_def)
qed

section \<open>The search API call and the choice of the source\<close>

lemma SearchResultApi_out: "fst (SearchResultApi env props h) = children props (hook_state h)"
  by (simp add: SearchResultApi_def useAsync_def Let_def)

lemma SearchResultApi_hook:
  "snd (SearchResultApi env props h) =
     (if hook_deps h = Some [addr (api_query props)] then h
      else h\<lparr>hook_deps := Some [addr (api_query props)],
             hook_calls := hook_calls h @ [issued env (api_query props)],
             hook_state := (hook_state h)\<lparr>state_loading := True\<rparr>\<rparr>)"
  by (simp add: SearchResultApi_def useAsync_def Let_def issued_def)

lemma deps_prev: "(map_option (\<lambda>a. [a]) prev = Some [b]) = (prev = Some (b::nat))"
  by (cases prev) auto

lemma calls_of_steps:
  "hook_deps h = map_option (\<lambda>a. [a]) prev \<Longrightarrow>
   hook_calls (snd (foldl (\<lambda>s ev. step env ev s) (outs, h) evs))
     = hook_calls h @ map (issued env) (changes prev (rendered_queries evs))"
proof (induction evs arbitrary: outs h prev)
  case Nil
  show ?case by simp
next
  case (Cons ev evs)
  show ?case
  proof (cases ev)
    case (Render props)
    let ?q = "api_query props"
    show ?thesis
    proof (cases "prev = Some (addr ?q)")
      case True
      then have same: "snd (SearchResultApi env props h) = h"
        using Cons.prems by (simp add: SearchResultApi_hook deps_prev)
      have "step env ev (outs, h) = (outs @ [fst (SearchResultApi env props h)], h)"
        using same by (simp add: Render split_beta Let_def)
      then show ?thesis
        using Cons.IH[OF Cons.prems] True by (simp add: Render)
    next
      case False
      define h' where "h' = h\<lparr>hook_deps := Some [addr ?q],
             hook_calls := hook_calls h @ [issued env ?q],
             hook_state := (hook_state h)\<lparr>state_loading := True\<rparr>\<rparr>"
      have new: "snd (SearchResultApi env props h) = h'"
        using Cons.prems False by (simp add: SearchResultApi_hook deps_prev h'_def)
      have st: "step env ev (outs, h) = (outs @ [fst (SearchResultApi env props h)], h')"
        using new by (simp add: Render split_beta Let_def)
      have d: "hook_deps h' = map_option (\<lambda>a. [a]) (Some (addr ?q))"
        by (simp add: h'_def)
      have "hook_calls (snd (foldl (\<lambda>s ev. step env ev s) (outs, h) (ev # evs)))
              = hook_calls (snd (foldl (\<lambda>s ev. step env ev s)
                                  (outs @ [fst (SearchResultApi env props h)], h') evs))"
        by (simp only: foldl_Cons st)
      also have "\<dots> = hook_calls h' @ map (issued env)
                          (changes (Some (addr ?q)) (rendered_queries evs))"
        using Cons.IH[OF d] .
      also have "\<dots> = hook_calls h @ map (issued env)
                          (changes prev (rendered_queries (ev # evs)))"
        using False by (simp add: Render h'_def)
      finally show ?thesis .
    qed
  next
    case (Resolved i v)
    have d: "hook_deps (resolve i v h) = map_option (\<lambda>a. [a]) prev"
      using Cons.prems by (simp add: resolve_def)
    show ?thesis using Cons.IH[OF d] by (simp add: Resolved resolve_def)
  next
    case (Rejected i e)
    have d: "hook_deps (reject i e h) = map_option (\<lambda>a. [a]) prev"
      using Cons.prems by (simp add: reject_def)
    show ?thesis using Cons.IH[OF d] by (simp add: Rejected reject_def)
  qed
qed

lemma changes_fixed:
  "\<forall>q' \<in> set qs. q' = q \<Longrightarrow> changes (Some (addr q)) qs = []"
  by (induction qs) auto

text \<open>
  C4. Over the renders of a mounted \<open>SearchResultApi\<close>, interleaved with the settling
  of its promises, the calls of the injected search API's \<open>query\<close> method are exactly
  one for each change of the query prop, each with the request built from that query;
  with one fixed query there is exactly one call. Every render gives the state that the
  hook reports, unchanged, to the child render function.
\<close>

theorem SearchResultApi_one_call_per_change:
  "hook_calls (snd (run (env :: ('a, 'p) env) evs))
     = map (issued env) (changes None (rendered_queries evs))
   \<and> fst (SearchResultApi env props h) = children props (hook_state h)
   \<and> (rendered_queries evs \<noteq> [] \<and> (\<forall>q' \<in> set (rendered_queries evs). q' = q) \<longrightarrow>
        hook_calls (snd (run env evs))
          = [searchApi_query env (SearchResultApi_request (deref q))])"
proof (intro conjI impI)
  have m: "hook_deps (mount :: 'p async_hook) = map_option (\<lambda>a. [a]) None"
    by (simp add: mount_def)
  show c: "hook_calls (snd (run env evs)) = map (issued env) (changes None (rendered_queries evs))"
    unfolding run_def using calls_of_steps[OF m, of env "[]" evs] by (simp add: mount_def)
  show "fst (SearchResultApi env props h) = children props (hook_state h)"
    by (rule SearchResultApi_out)
  assume a: "rendered_queries evs \<noteq> [] \<and> (\<forall>q' \<in> set (rendered_queries evs). q' = q)"
  then obtain qs where qs: "rendered_queries evs = q # qs" and all: "\<forall>q' \<in> set qs. q' = q"
    by (cases "rendered_queries evs") auto
  show "hook_calls (snd (run env evs)) = [searchApi_query env (SearchResultApi_request (deref q))]"
    unfolding c qs using changes_fixed[OF all] by (simp add: issued_def)
qed

theorem SearchResultApi_one_call_per_change_witness:
  "rendered_queries same_query_run = [docs_query, docs_query, docs_query]
   \<and> hook_calls (snd (run example_env same_query_run))
       = [\<lparr>q_term = Some ''docs'', q_types = Some [''techdocs''], q_filters = Some [],
           q_pageCursor = None\<rparr>]
   \<and> fst (run example_env same_query_run) = [Str ''loading'', Num 1, Null]
   \<and> hook_calls (snd (run example_env changing_query_run))
       = [\<lparr>q_term = Some ''docs'', q_types = Some [''techdocs''], q_filters = Some [],
           q_pageCursor = None\<rparr>,
          \<lparr>q_term = Some '''', q_types = Some [], q_filters = Some [],
           q_pageCursor = Some ''Mg==''\<rparr>]"
proof -
  have q: "rendered_queries same_query_run = [docs_query, docs_query, docs_query]"
    by (simp add: same_query_run_def)
  then have h: "rendered_queries same_query_run \<noteq> []
                 \<and> (\<forall>q' \<in> set (rendered_queries same_query_run). q' = docs_query)"
    by simp
  from SearchResultApi_one_call_per_change[of example_env same_query_run _ _ docs_query] h
  have "hook_calls (snd (run example_env same_query_run))
          = [searchApi_query example_env (SearchResultApi_request (deref docs_query))]"
    by blast
  then have a: "hook_calls (snd (run example_env same_query_run))
       = [\<lparr>q_term = Some ''docs'', q_types = Some [''techdocs''], q_filters = Some [],
           q_pageCursor = None\<rparr>]"
    by (simp add: example_env_def docs_query_def SearchResultApi_request_def)
  have b: "fst (run example_env same_query_run) = [Str ''loading'', Num 1, Null]"
    by (simp add: run_def same_query_run_def SearchResultApi_def useAsync_def mount_def
          resolve_def example_child_def docs_query_def Let_def)
  have c: "hook_calls (snd (run example_env changing_query_run))
       = [\<lparr>q_term = Some ''docs'', q_types = Some [''techdocs''], q_filters = Some [],
           q_pageCursor = None\<rparr>,
          \<lparr>q_term = Some '''', q_types = Some [], q_filters = Some [],
           q_pageCursor = Some ''Mg==''\<rparr>]"
    by (simp add: run_def changing_query_run_def SearchResultApi_def useAsync_def mount_def
          reject_def example_env_def docs_query_def api_query_other_def
          SearchResultApi_request_def Let_def)
  show ?thesis using q a b c by simp
qed

text \<open>
  C9. The request that \<open>SearchResultApi\<close> passes to the search API has the term, the
  types and the filters of the query, the empty string, the empty list and the empty
  object in place of a missing one, and every other field of the query unchanged.
\<close>

theorem SearchResultApi_request_defaults:
  "q_term (SearchResultApi_request q) = Some (case q_term q of None \<Rightarrow> '''' | Some t \<Rightarrow> t)
   \<and> q_types (SearchResultApi_request q) = Some (case q_types q of None \<Rightarrow> [] | Some ts \<Rightarrow> ts)
   \<and> q_filters (SearchResultApi_request q) = Some (case q_filters q of None \<Rightarrow> [] | Some fs \<Rightarrow> fs)
   \<and> q_pageCursor (SearchResultApi_request q) = q_pageCursor q
   \<and> query.more (SearchResultApi_request q) = query.more q
   \<and> hook_calls (snd (SearchResultApi env \<lparr>children = c, api_query = Ref a q\<rparr> mount))
       = [searchApi_query env (SearchResultApi_request q)]"
  by (simp add: SearchResultApi_request_def SearchResultApi_hook mount_def issued_def Let_def)

text \<open>
  C2. With a query prop, \<open>SearchResultState\<close> is \<open>SearchResultApi\<close> with that query
  and the same child function: the child gets the state of the API call, and the call
  goes to the injected search API. Without one it is \<open>SearchResultContext\<close> with the
  same child function: the child gets the result of the search context, and nothing is
  requested.
\<close>

theorem SearchResultState_source:
  "(state_query props = Some q \<longrightarrow>
      SearchResultState env props h
        = SearchResultApi env \<lparr>children = children props, api_query = q\<rparr> h
      \<and> fst (SearchResultState env props h) = children props (hook_state h)
      \<and> hook_calls (snd (SearchResultState env props mount))
          = [searchApi_query env (SearchResultApi_request (deref q))])
   \<and> (state_query props = None \<longrightarrow>
        SearchResultState env props h
          = (SearchResultContext env \<lparr>children = children props\<rparr>, h)
        \<and> fst (SearchResultState env props h) = children props (ctx_result (useSearch env)))"
  by (simp add: SearchResultState_def SearchResultContext_def SearchResultApi_out
        SearchResultApi_hook mount_def issued_def Let_def)

theorem SearchResultState_source_witness:
  "state_query \<lparr>children = example_child, state_query = Some docs_query\<rparr> = Some docs_query
   \<and> SearchResultState example_env \<lparr>children = example_child, state_query = Some docs_query\<rparr> mount
       = SearchResultApi example_env \<lparr>children = example_child, api_query = docs_query\<rparr> mount
   \<and> fst (SearchResultState example_env
             \<lparr>children = example_child, state_query = Some docs_query\<rparr> mount)
       = Str ''loading''
   \<and> hook_calls (snd (SearchResultState example_env
             \<lparr>children = example_child, state_query = Some docs_query\<rparr> mount))
       = [\<lparr>q_term = Some ''docs'', q_types = Some [''techdocs''], q_filters = Some [],
           q_pageCursor = None\<rparr>]
   \<and> state_query \<lparr>children = example_child, state_query = (None :: query ref option)\<rparr> = None
   \<and> SearchResultState example_env
        \<lparr>children = example_child, state_query = None\<rparr> (mount :: query async_hook)
       = (Num 1, mount)"
proof -
  let ?with = "\<lparr>children = example_child, state_query = Some docs_query\<rparr>"
  let ?without = "\<lparr>children = example_child, state_query = (None :: query ref option)\<rparr>"
  have s: "state_query ?with = Some docs_query" and n: "state_query ?without = None"
    by simp_all
  note w = SearchResultState_source
             [of ?with docs_query example_env mount, THEN conjunct1, THEN mp, OF s]
  note c = SearchResultState_source
             [of ?without _ example_env "mount :: query async_hook", THEN conjunct2, THEN mp, OF n]
  have w1: "SearchResultState example_env ?with mount
       = SearchResultApi example_env \<lparr>children = example_child, api_query = docs_query\<rparr> mount"
    using w [THEN conjunct1] by (simp only: context_props.select_convs)
  have w2: "fst (SearchResultState example_env ?with mount) = Str ''loading''"
    using w [THEN conjunct2, THEN conjunct1] by (simp add: example_child_def mount_def)
  have w3: "hook_calls (snd (SearchResultState example_env ?with mount))
       = [\<lparr>q_term = Some ''docs'', q_types = Some [''techdocs''], q_filters = Some [],
           q_pageCursor = None\<rparr>]"
    using w [THEN conjunct2, THEN conjunct2]
    by (simp add: example_env_def docs_query_def SearchResultApi_request_def)
  have c1: "SearchResultState example_env ?without (mount :: query async_hook) = (Num 1, mount)"
    using c [THEN conjunct1]
    by (simp add: SearchResultContext_def example_env_def example_child_def)
  show ?thesis
    by (intro conjI s n w1 w2 w3 c1)
qed

section \<open>The result group\<close>

lemma SearchResultComponent_render_error:
  "\<not> state_loading state \<Longrightarrow> truthy (state_error state) \<Longrightarrow>
   SearchResultComponent_render env props state = ResponseErrorPanel (state_error state)"
  by (simp add: SearchResultComponent_render_def Let_def)

lemma SearchResultGroupLayout_list:
  "loading props \<noteq> Some True \<Longrightarrow>
   \<exists>ps. SearchResultGroupLayout env props = Element (Comp ''List'') ps"
  by (simp add: SearchResultGroupLayout_def createElement_def Let_def)

lemma SearchResultGroupLayout_no_error_panel:
  "SearchResultGroupLayout env props \<noteq> ResponseErrorPanel e"
  by (simp add: SearchResultGroupLayout_def ResponseErrorPanel_def createElement_def Let_def)

text \<open>
  C3. When the state has an error and is not loading, the rendering components return
  the \<open>ResponseErrorPanel\<close> with that error. \<open>SearchResultComponent\<close> does
  (\<open>SearchResultComponent_render_error\<close>). \<open>SearchResultGroupLayout\<close> does not: it
  builds the panel in a statement of its own, drops it and goes on to the list, so that
  whatever its props it never returns the panel
  (\<open>SearchResultGroupLayout_no_error_panel\<close>). The theorem evaluates both components
  on a failed fetch.
\<close>

theorem SearchResultGroupLayout_drops_error:
  "loading failed_layout_props = Some False
   \<and> truthy (error failed_layout_props)
   \<and> SearchResultGroupLayout example_env failed_layout_props
       \<noteq> ResponseErrorPanel (error failed_layout_props)
   \<and> SearchResultGroupLayout example_env failed_layout_props
       = Element (Comp ''List'')
           [(''children'',
             Arr [Element (Comp ''ListSubheader'')
                    [(''className'', Str ''listSubheader''),
                     (''children'',
                      Arr [Element (Comp ''DocsIcon'') [],
                           Element (Comp ''Typography'')
                             [(''className'', Str ''listSubheaderName''),
                              (''component'', Str ''strong''),
                              (''children'', Str ''Documentation'')],
                           Null, Null, Undefined,
                           Element (Comp ''Link'')
                             [(''className'', Str ''listSubheaderLink''),
                              (''to'', Str ''/search''),
                              (''children'', Str ''See all'')]])],
                  Element (Comp ''ListItem'')
                    [(''children'',
                      Element (Comp ''EmptyState'')
                        [(''missing'', Str ''data''),
                         (''title'', Str ''Sorry, no results were found'')])]])]
   \<and> SearchResultComponent_render example_env list_result_props failed_state
       = Element (Comp ''ResponseErrorPanel'')
           [(''title'', Str ''Error encountered while fetching search results''),
            (''error'', request_failed)]"
  by (simp add: SearchResultGroupLayout_def SearchResultGroupLayout_subheader_def
        SearchResultComponent_render_def ResponseErrorPanel_def EmptyState_no_results_def
        failed_layout_props_def failed_state_def list_result_props_def request_failed_def
        example_env_def createElement_def set_prop_def spread_def Let_def)

lemma no_results_render:
  "disableRenderingWithNoResults props = Some True \<Longrightarrow>
   (case state_value state of None \<Rightarrow> True | Some v \<Rightarrow> results v = []) \<Longrightarrow>
   SearchResultGroup_render env props state = Null"
  by (simp add: SearchResultGroup_render_def Let_def)

lemma SearchResultGroup_out:
  "group_query props = Some q \<Longrightarrow>
   fst (SearchResultGroup env props h)
     = AnalyticsContext ''SearchResultGroup'' (SearchResultGroup_render env props (hook_state h))"
  by (simp add: SearchResultGroup_def SearchResultState_def SearchResultApi_def useAsync_def
        Let_def split_beta)

lemma SearchResultGroup_out_context:
  "group_query props = None \<Longrightarrow>
   fst (SearchResultGroup env props h)
     = AnalyticsContext ''SearchResultGroup''
         (SearchResultGroup_render env props (ctx_result (useSearch env)))"
  by (simp add: SearchResultGroup_def SearchResultState_def SearchResultContext_def
        Let_def split_beta)

lemma SearchResultGroupLayout_not_null: "SearchResultGroupLayout env props \<noteq> Null"
  by (simp add: SearchResultGroupLayout_def createElement_def Let_def)

lemma render_null_iff:
  "disableRenderingWithNoResults props = Some True \<Longrightarrow>
   SearchResultGroup_render env props state = Null
     \<longleftrightarrow> (case state_value state of None \<Rightarrow> True | Some v \<Rightarrow> results v = [])"
  by (simp add: SearchResultGroup_render_def SearchResultGroupLayout_not_null Let_def)

lemma render_loading_with_results:
  "state_loading state \<Longrightarrow> state_value state = Some v \<Longrightarrow> results v \<noteq> [] \<Longrightarrow>
   SearchResultGroup_render env props state = createElement (Comp ''Progress'') [] []"
  by (simp add: SearchResultGroup_render_def SearchResultGroupLayout_def Let_def)

text \<open>
  C10, as the code has it. With \<open>disableRenderingWithNoResults\<close> set, the function
  that \<open>SearchResultGroup\<close> renders through returns \<open>null\<close> exactly when the state
  has no value or a value without results, whatever its loading flag and error: so does
  the group on mount, while the first fetch is loading, after that fetch has failed, and
  on a context without results. A state that is loading and still holds results, as the
  hook reports during a later fetch, is rendered as the progress indicator.
\<close>

theorem group_hidden_without_results:
  "(disableRenderingWithNoResults props = Some True \<longrightarrow>
      (SearchResultGroup_render env props state = Null
         \<longleftrightarrow> state_value state = None \<or> (\<exists>v. state_value state = Some v \<and> results v = [])))
   \<and> (disableRenderingWithNoResults props = Some True \<and> group_query props = Some q \<longrightarrow>
        fst (SearchResultGroup env props mount) = AnalyticsContext ''SearchResultGroup'' Null
        \<and> fst (SearchResultGroup env props (reject 0 e (snd (SearchResultGroup env props mount))))
            = AnalyticsContext ''SearchResultGroup'' Null)
   \<and> (disableRenderingWithNoResults props = Some True \<and> group_query props = None
        \<and> (state_value (ctx_result (useSearch env)) = None
             \<or> (\<exists>v. state_value (ctx_result (useSearch env)) = Some v \<and> results v = [])) \<longrightarrow>
        fst (SearchResultGroup env props h) = AnalyticsContext ''SearchResultGroup'' Null)
   \<and> (state_loading state \<and> (\<exists>v. state_value state = Some v \<and> results v \<noteq> []) \<longrightarrow>
        SearchResultGroup_render env props state = createElement (Comp ''Progress'') [] [])"
proof (intro conjI impI)
  assume a: "disableRenderingWithNoResults props = Some True"
  show "SearchResultGroup_render env props state = Null
         \<longleftrightarrow> state_value state = None \<or> (\<exists>v. state_value state = Some v \<and> results v = [])"
    unfolding render_null_iff [OF a] by (cases "state_value state") auto
next
  assume a: "disableRenderingWithNoResults props = Some True \<and> group_query props = Some q"
  have m: "state_value (hook_state (mount :: 'b async_hook)) = None"
    by (simp add: mount_def)
  show "fst (SearchResultGroup env props mount) = AnalyticsContext ''SearchResultGroup'' Null"
    using a m by (simp add: SearchResultGroup_out no_results_render)
  have "state_value (hook_state (reject 0 e (snd (SearchResultGroup env props mount)))) = None"
    using a by (simp add: reject_def SearchResultGroup_def SearchResultState_def
                  SearchResultApi_def useAsync_def mount_def Let_def split_beta)
  then show "fst (SearchResultGroup env props (reject 0 e (snd (SearchResultGroup env props mount))))
            = AnalyticsContext ''SearchResultGroup'' Null"
    using a by (simp add: SearchResultGroup_out no_results_render)
next
  assume a: "disableRenderingWithNoResults props = Some True \<and> group_query props = None
        \<and> (state_value (ctx_result (useSearch env)) = None
             \<or> (\<exists>v. state_value (ctx_result (useSearch env)) = Some v \<and> results v = []))"
  then have "SearchResultGroup_render env props (ctx_result (useSearch env)) = Null"
    by (auto intro: no_results_render)
  then show "fst (SearchResultGroup env props h) = AnalyticsContext ''SearchResultGroup'' Null"
    using a by (simp add: SearchResultGroup_out_context)
next
  assume "state_loading state \<and> (\<exists>v. state_value state = Some v \<and> results v \<noteq> [])"
  then show "SearchResultGroup_render env props state = createElement (Comp ''Progress'') [] []"
    by (auto intro: render_loading_with_results)
qed

theorem group_hidden_without_results_witness:
  "disableRenderingWithNoResults docs_group_props = Some True
   \<and> group_query docs_group_props = Some docs_query
   \<and> state_value failed_state = None
   \<and> SearchResultGroup_render example_env docs_group_props failed_state = Null
   \<and> fst (SearchResultGroup example_env docs_group_props mount)
       = Element (Comp ''AnalyticsContext'')
           [(''attributes'',
             Obj [(''pluginId'', Str ''search''), (''extension'', Str ''SearchResultGroup'')]),
            (''children'', Null)]
   \<and> group_query (docs_group_props\<lparr>group_query := None\<rparr>) = None
   \<and> state_value (ctx_result (useSearch empty_context_env)) = Some \<lparr>results = []\<rparr>
   \<and> fst (SearchResultGroup empty_context_env (docs_group_props\<lparr>group_query := None\<rparr>)
             (mount :: query async_hook))
       = Element (Comp ''AnalyticsContext'')
           [(''attributes'',
             Obj [(''pluginId'', Str ''search''), (''extension'', Str ''SearchResultGroup'')]),
            (''children'', Null)]
   \<and> state_loading (hook_state refetching_hook)
   \<and> state_value (hook_state refetching_hook) = Some \<lparr>results = [techdocs_result]\<rparr>
   \<and> SearchResultGroup_render example_env other_group_props (hook_state refetching_hook)
       = Element (Comp ''Progress'') []"
proof -
  let ?ctx = "docs_group_props\<lparr>group_query := None\<rparr>"
  have f: "disableRenderingWithNoResults docs_group_props = Some True"
    and q: "group_query docs_group_props = Some docs_query"
    and f': "disableRenderingWithNoResults ?ctx = Some True"
    and q': "group_query ?ctx = None"
    by (simp_all add: docs_group_props_def)
  have v: "state_value failed_state = None"
    by (simp add: failed_state_def)
  have c: "state_value (ctx_result (useSearch empty_context_env)) = Some \<lparr>results = []\<rparr>"
    by (simp add: empty_context_env_def)
  have l: "state_loading (hook_state refetching_hook)"
    and s: "state_value (hook_state refetching_hook) = Some \<lparr>results = [techdocs_result]\<rparr>"
    by (simp_all add: refetching_hook_def other_group_props_def docs_group_props_def
          SearchResultGroup_def SearchResultState_def SearchResultApi_def useAsync_def
          resolve_def mount_def docs_query_def api_query_other_def Let_def split_beta)
  note t = group_hidden_without_results
             [of docs_group_props example_env failed_state docs_query request_failed mount]
  note t' = group_hidden_without_results
             [of ?ctx empty_context_env failed_state docs_query request_failed
                 "mount :: query async_hook"]
  note t'' = group_hidden_without_results
             [of other_group_props example_env "hook_state refetching_hook"]
  have r: "SearchResultGroup_render example_env docs_group_props failed_state = Null"
    using t [THEN conjunct1] f v by simp
  have a: "AnalyticsContext ''SearchResultGroup'' Null
        = Element (Comp ''AnalyticsContext'')
           [(''attributes'',
             Obj [(''pluginId'', Str ''search''), (''extension'', Str ''SearchResultGroup'')]),
            (''children'', Null)]"
    by (simp add: AnalyticsContext_def createElement_def set_prop_def)
  have g: "fst (SearchResultGroup example_env docs_group_props mount)
             = AnalyticsContext ''SearchResultGroup'' Null"
    using t [THEN conjunct2, THEN conjunct1] f q by blast
  have g': "fst (SearchResultGroup empty_context_env ?ctx (mount :: query async_hook))
              = AnalyticsContext ''SearchResultGroup'' Null"
    using t' [THEN conjunct2, THEN conjunct2, THEN conjunct1] f' q' c by simp
  have p: "SearchResultGroup_render example_env other_group_props (hook_state refetching_hook)
             = Element (Comp ''Progress'') []"
    using t'' [THEN conjunct2, THEN conjunct2, THEN conjunct2] l s
    by (simp add: createElement_def techdocs_result_def)
  show ?thesis
    unfolding g g' a [symmetric] by (intro conjI f q v r q' c refl l s p)
qed

text \<open>
  Rendering nothing while the fetch is loading does not hold of every loading state:
  the group with the switch set, rendered during the fetch for its second query, holds
  the result of the first one and returns the progress indicator, not \<open>null\<close>.
\<close>

theorem group_hidden_while_loading_counterexample:
  "disableRenderingWithNoResults other_group_props = Some True
   \<and> state_loading (hook_state refetching_hook)
   \<and> fst (SearchResultGroup example_env other_group_props refetching_hook)
       = AnalyticsContext ''SearchResultGroup'' (Element (Comp ''Progress'') [])
   \<and> fst (SearchResultGroup example_env other_group_props refetching_hook)
       \<noteq> AnalyticsContext ''SearchResultGroup'' Null"
proof -
  have f: "disableRenderingWithNoResults other_group_props = Some True"
    and q: "group_query other_group_props = Some api_query_other"
    by (simp_all add: other_group_props_def docs_group_props_def)
  have l: "state_loading (hook_state refetching_hook)"
    and s: "state_value (hook_state refetching_hook) = Some \<lparr>results = [techdocs_result]\<rparr>"
    by (simp_all add: refetching_hook_def other_group_props_def docs_group_props_def
          SearchResultGroup_def SearchResultState_def SearchResultApi_def useAsync_def
          resolve_def mount_def docs_query_def api_query_other_def Let_def split_beta)
  have "SearchResultGroup_render example_env other_group_props (hook_state refetching_hook)
          = createElement (Comp ''Progress'') [] []"
    using l s by (simp add: render_loading_with_results)
  then have g: "fst (SearchResultGroup example_env other_group_props refetching_hook)
       = AnalyticsContext ''SearchResultGroup'' (Element (Comp ''Progress'') [])"
    using q by (simp add: SearchResultGroup_out createElement_def)
  have n: "AnalyticsContext ''SearchResultGroup'' (Element (Comp ''Progress'') [])
             \<noteq> AnalyticsContext ''SearchResultGroup'' Null"
    by (simp add: AnalyticsContext_def createElement_def set_prop_def)
  show ?thesis unfolding g using f l n by simp
qed

lemma defined_params:
  "filter (\<lambda>(k, v). v \<noteq> Undefined) (SearchResultGroup_params query) = present_params query"
  by (simp add: SearchResultGroup_params_def present_params_def query_field_def
           split: option.splits)

lemma simple_stringify_omits: "omits_undefined simple_stringify"
  by (simp add: omits_undefined_def simple_stringify_def)

text \<open>
  C5. The link target that \<open>SearchResultGroup\<close> builds is \<open>/search?\<close> followed by
  \<open>qs.stringify\<close> of an object with exactly the keys \<open>query\<close> (the term), \<open>types\<close>,
  \<open>filters\<close> and \<open>pageCursor\<close>, a missing field \<open>undefined\<close>. As \<open>qs.stringify\<close>
  leaves out properties that are \<open>undefined\<close>, the target is that of the fields that
  are there; it depends on no other field of the query.
\<close>

theorem see_all_link_serializes_query_fields:
  "SearchResultGroup_to env query
     = ''/search?'' @ qs_stringify env
         [(''query'', query_field query q_term Str),
          (''types'', query_field query q_types (\<lambda>ts. Arr (map Str ts))),
          (''filters'', query_field query q_filters Obj),
          (''pageCursor'', query_field query q_pageCursor Str)]
         [(''arrayFormat'', Str ''brackets'')]
   \<and> (omits_undefined (qs_stringify env) \<longrightarrow>
        SearchResultGroup_to env query
          = ''/search?'' @ qs_stringify env (present_params query)
                            [(''arrayFormat'', Str ''brackets'')])
   \<and> (q_term (deref q) = q_term (deref q') \<and> q_types (deref q) = q_types (deref q')
        \<and> q_filters (deref q) = q_filters (deref q')
        \<and> q_pageCursor (deref q) = q_pageCursor (deref q') \<longrightarrow>
        SearchResultGroup_to env (Some q) = SearchResultGroup_to env (Some q'))"
proof (intro conjI impI)
  show "SearchResultGroup_to env query
     = ''/search?'' @ qs_stringify env
         [(''query'', query_field query q_term Str),
          (''types'', query_field query q_types (\<lambda>ts. Arr (map Str ts))),
          (''filters'', query_field query q_filters Obj),
          (''pageCursor'', query_field query q_pageCursor Str)]
         [(''arrayFormat'', Str ''brackets'')]"
    by (simp add: SearchResultGroup_to_def SearchResultGroup_params_def)
next
  assume "omits_undefined (qs_stringify env)"
  then have "qs_stringify env (SearchResultGroup_params query) [(''arrayFormat'', Str ''brackets'')]
       = qs_stringify env (filter (\<lambda>(k, v). v \<noteq> Undefined) (SearchResultGroup_params query))
           [(''arrayFormat'', Str ''brackets'')]"
    unfolding omits_undefined_def by blast
  then show "SearchResultGroup_to env query
          = ''/search?'' @ qs_stringify env (present_params query)
                            [(''arrayFormat'', Str ''brackets'')]"
    by (simp add: SearchResultGroup_to_def defined_params)
next
  assume "q_term (deref q) = q_term (deref q') \<and> q_types (deref q) = q_types (deref q')
        \<and> q_filters (deref q) = q_filters (deref q')
        \<and> q_pageCursor (deref q) = q_pageCursor (deref q')"
  then show "SearchResultGroup_to env (Some q) = SearchResultGroup_to env (Some q')"
    by (simp add: SearchResultGroup_to_def SearchResultGroup_params_def query_field_def)
qed

theorem see_all_link_serializes_query_fields_witness:
  "omits_undefined (qs_stringify example_env)
   \<and> SearchResultGroup_to example_env (Some docs_query) = ''/search?query=docs&types[]=techdocs''
   \<and> SearchResultGroup_to example_env (Some api_query_other) = ''/search?pageCursor=Mg==''
   \<and> SearchResultGroup_to example_env None = ''/search?''
   \<and> SearchResultGroup_to example_env (Some docs_query)
       = SearchResultGroup_to example_env (Some (Ref 7 (deref docs_query)))"
proof -
  have o: "omits_undefined (qs_stringify example_env)"
    by (simp add: example_env_def simple_stringify_omits)
  note t = see_all_link_serializes_query_fields
             [of example_env _ docs_query "Ref 7 (deref docs_query)"]
  have p1: "present_params (Some docs_query)
              = [(''query'', Str ''docs''), (''types'', Arr [Str ''techdocs''])]"
    by (simp add: present_params_def docs_query_def)
  have p2: "present_params (Some api_query_other) = [(''pageCursor'', Str ''Mg=='')]"
    by (simp add: present_params_def api_query_other_def)
  have s: "qs_stringify example_env = simple_stringify"
    by (simp add: example_env_def)
  have u1: "SearchResultGroup_to example_env (Some docs_query)
              = ''/search?query=docs&types[]=techdocs''"
    using t [of "Some docs_query", THEN conjunct2, THEN conjunct1, THEN mp, OF o]
    by (simp add: p1 s simple_stringify_def simple_entry_def)
  have u2: "SearchResultGroup_to example_env (Some api_query_other) = ''/search?pageCursor=Mg==''"
    using t [of "Some api_query_other", THEN conjunct2, THEN conjunct1, THEN mp, OF o]
    by (simp add: p2 s simple_stringify_def simple_entry_def)
  have u3: "SearchResultGroup_to example_env (Some docs_query)
       = SearchResultGroup_to example_env (Some (Ref 7 (deref docs_query)))"
    using t [of None, THEN conjunct2, THEN conjunct2] by simp
  have u0: "SearchResultGroup_to example_env None = ''/search?''"
    using t [of None, THEN conjunct2, THEN conjunct1, THEN mp, OF o]
    by (simp add: present_params_def s simple_stringify_def)
  show ?thesis by (intro conjI o u1 u2 u0 u3)
qed

section \<open>The Azure Functions widget\<close>

text \<open>
  C7. \<open>AzureFunctionsOverviewWidget\<close> renders the missing-annotation empty state if
  and only if the annotations of the entity have no non-empty value under the Azure
  Functions annotation key; otherwise it renders, inside an error boundary, the
  functions overview of that entity: the table with the data and the loading flag of
  \<open>useFunctions\<close> for the entity's functions name.
\<close>

theorem widget_empty_state_iff_not_annotated:
  "(AzureFunctionsOverviewWidget env
      = createElement (Comp ''MissingAnnotationEmptyState'')
          [(''annotation'', Str (AZURE_FUNCTIONS_ANNOTATION env))] []
    \<longleftrightarrow> \<not> annotated env)
   \<and> (annotated env \<longrightarrow>
        AzureFunctionsOverviewWidget env
          = createElement (Comp ''ErrorBoundary'') [] [AzureFunctionsOverview env (useEntity env)])
   \<and> AzureFunctionsOverview env entity
       = createElement (Comp ''Fragment'') []
           [OverviewComponent
              (coalesce (fs_data (useFunctions env (useServiceEntityAnnotations env entity)))
                 (Arr []))
              (fs_loading (useFunctions env (useServiceEntityAnnotations env entity)))]"
proof -
  have t: "truthy (isAzureFunctionsAvailable env (useEntity env)) \<longleftrightarrow> annotated env"
    by (auto simp: isAzureFunctionsAvailable_def annotated_def split: option.splits)
  show ?thesis
    by (auto simp: AzureFunctionsOverviewWidget_def AzureFunctionsOverview_def t
          createElement_def set_prop_def Let_def)
qed

theorem widget_empty_state_iff_not_annotated_witness:
  "annotated (azure_example (Some [(''portal.azure.com/functions-name'', ''orders'')]))
   \<and> AzureFunctionsOverviewWidget
        (azure_example (Some [(''portal.azure.com/functions-name'', ''orders'')]))
       = createElement (Comp ''ErrorBoundary'') []
           [createElement (Comp ''Fragment'') [] [OverviewComponent (Arr []) (Bool True)]]
   \<and> \<not> annotated (azure_example (Some [(''portal.azure.com/functions-name'', '''')]))
   \<and> AzureFunctionsOverviewWidget
        (azure_example (Some [(''portal.azure.com/functions-name'', '''')]))
       = Element (Comp ''MissingAnnotationEmptyState'')
           [(''annotation'', Str ''portal.azure.com/functions-name'')]
   \<and> \<not> annotated (azure_example None)
   \<and> AzureFunctionsOverviewWidget (azure_example None)
       = Element (Comp ''MissingAnnotationEmptyState'')
           [(''annotation'', Str ''portal.azure.com/functions-name'')]"
proof -
  let ?yes = "azure_example (Some [(''portal.azure.com/functions-name'', ''orders'')])"
  let ?empty = "azure_example (Some [(''portal.azure.com/functions-name'', '''')])"
  let ?none = "azure_example None"
  have y: "annotated ?yes" and e: "\<not> annotated ?empty" and n: "\<not> annotated ?none"
    by (simp_all add: annotated_def azure_example_def)
  have k: "AZURE_FUNCTIONS_ANNOTATION ?empty = ''portal.azure.com/functions-name''"
          "AZURE_FUNCTIONS_ANNOTATION ?none = ''portal.azure.com/functions-name''"
    by (simp_all add: azure_example_def)
  have w1: "AzureFunctionsOverviewWidget ?yes
       = createElement (Comp ''ErrorBoundary'') []
           [createElement (Comp ''Fragment'') [] [OverviewComponent (Arr []) (Bool True)]]"
    using widget_empty_state_iff_not_annotated [of ?yes, THEN conjunct2, THEN conjunct1, THEN mp, OF y]
    by (simp add: AzureFunctionsOverview_def azure_example_def coalesce_def nullish_def)
  have w2: "AzureFunctionsOverviewWidget ?empty
       = Element (Comp ''MissingAnnotationEmptyState'')
           [(''annotation'', Str ''portal.azure.com/functions-name'')]"
    using widget_empty_state_iff_not_annotated [of ?empty, THEN conjunct1] e
    by (simp add: k createElement_def)
  have w3: "AzureFunctionsOverviewWidget ?none
       = Element (Comp ''MissingAnnotationEmptyState'')
           [(''annotation'', Str ''portal.azure.com/functions-name'')]"
    using widget_empty_state_iff_not_annotated [of ?none, THEN conjunct1] n
    by (simp add: k createElement_def)
  show ?thesis by (intro conjI y e n w1 w2 w3)
qed

end
